theory Spec2Isabelle
  imports Main "HOL-Library.Word"
begin

section \<open>Shared values\<close>

text \<open>
  Binary data (keys, nonces, tags, ciphertext, digests) is a list of bytes. Text is a
  \<open>string\<close> whose characters are the bytes of its UTF-8 encoding. Database identifiers
  (\<open>_id\<close>, \<open>userId\<close>) are abstract numbers, times are seconds since the epoch.
\<close>

unbundle bit_operations_syntax

type_synonym byte = "8 word"
type_synonym object_id = nat

text \<open>A thrown JavaScript \<open>Error\<close>, carried as a value with its \<open>message\<close>.\<close>

datatype js_error = Error (message: string)

text \<open>
  JavaScript truthiness of a value that is a string or \<open>undefined\<close>: \<open>!v\<close> holds for
  \<open>undefined\<close> and for the empty string. \<open>a || b\<close> is \<open>b\<close> when \<open>a\<close> is falsy.
\<close>

fun falsy :: "string option \<Rightarrow> bool" where
  "falsy None = True"
| "falsy (Some s) = (s = [])"

definition or_else :: "string option \<Rightarrow> string option \<Rightarrow> string option" where
  "or_else a b = (if falsy a then b else a)"

text \<open>
  The libraries the code calls (Node's \<open>crypto\<close>, \<open>bcrypt\<close>, the time-span parser of
  \<open>jsonwebtoken\<close>) are not part of the repository. Their primitives are parameters of
  the model, so every result holds for whichever functions the libraries compute:
  \<^item> \<open>gcm_keystream key iv i\<close>: byte \<open>i\<close> of the counter-mode keystream of AES-256-GCM;
  \<^item> \<open>gcm_tag key iv ciphertext\<close>: the 128-bit authentication tag;
  \<^item> \<open>sha256 bytes\<close>: the 256-bit digest;
  \<^item> \<open>bcrypt_compare password hash\<close>: the bcrypt check, which may reject;
  \<^item> \<open>ms_seconds span\<close>: the seconds of a time span such as \<open>1h\<close>, if it parses.
\<close>

record node_lib =
  gcm_keystream :: "byte list \<Rightarrow> byte list \<Rightarrow> nat \<Rightarrow> byte"
  gcm_tag :: "byte list \<Rightarrow> byte list \<Rightarrow> byte list \<Rightarrow> 128 word"
  sha256 :: "byte list \<Rightarrow> 256 word"
  bcrypt_compare :: "string \<Rightarrow> string \<Rightarrow> js_error + bool"
  ms_seconds :: "string \<Rightarrow> nat option"

text \<open>The environment variables the code reads (\<open>process.env\<close>).\<close>

record env =
  AES_KEY :: "string option"
  JWT_SECRET :: "string option"
  JWT_REFRESH_SECRET :: "string option"
  JWT_EXPIRES_IN :: "string option"
  JWT_REFRESH_EXPIRES_IN :: "string option"

section \<open>Encodings\<close>

text \<open>
  Base64 as Node's \<open>Buffer\<close> writes and reads it. Encoding uses the standard alphabet
  and pads with \<open>=\<close>. Decoding is lenient: it stops at the first \<open>=\<close>, skips every
  character outside the alphabets (\<open>-\<close> and \<open>_\<close> of the URL-safe alphabet count as
  62 and 63), and turns a trailing group of two or three characters into one or two
  bytes. It never fails.
\<close>

definition b64_alphabet :: string where
  "b64_alphabet = ''ABCDEFGHIJKLMNOPQRSTUVWXYZabcdefghijklmnopqrstuvwxyz0123456789+/''"

definition b64_char :: "nat \<Rightarrow> char" where
  "b64_char n = b64_alphabet ! n"

fun index_of :: "'a \<Rightarrow> 'a list \<Rightarrow> nat option" where
  "index_of x [] = None"
| "index_of x (y # ys) = (if x = y then Some 0 else map_option Suc (index_of x ys))"

definition unbase64 :: "char \<Rightarrow> nat option" where
  "unbase64 c =
    (if c = CHR ''-'' then Some 62 else if c = CHR ''_'' then Some 63
     else index_of c b64_alphabet)"

fun enc6 :: "byte list \<Rightarrow> nat list" where
  "enc6 (a # b # c # rest) =
    [unat a div 4, (unat a mod 4) * 16 + unat b div 16,
     (unat b mod 16) * 4 + unat c div 64, unat c mod 64] @ enc6 rest"
| "enc6 [a, b] = [unat a div 4, (unat a mod 4) * 16 + unat b div 16, (unat b mod 16) * 4]"
| "enc6 [a] = [unat a div 4, (unat a mod 4) * 16]"
| "enc6 [] = []"

definition base64_encode :: "byte list \<Rightarrow> string" where
  "base64_encode bs =
    map b64_char (enc6 bs) @ replicate ((3 - length bs mod 3) mod 3) (CHR ''='')"

fun dec6 :: "nat list \<Rightarrow> byte list" where
  "dec6 (s1 # s2 # s3 # s4 # rest) =
    [of_nat (s1 * 4 + s2 div 16), of_nat ((s2 mod 16) * 16 + s3 div 4),
     of_nat ((s3 mod 4) * 64 + s4)] @ dec6 rest"
| "dec6 [s1, s2, s3] = [of_nat (s1 * 4 + s2 div 16), of_nat ((s2 mod 16) * 16 + s3 div 4)]"
| "dec6 [s1, s2] = [of_nat (s1 * 4 + s2 div 16)]"
| "dec6 _ = []"

definition base64_decode :: "string \<Rightarrow> byte list" where
  "base64_decode s = dec6 (List.map_filter unbase64 (takeWhile (\<lambda>c. c \<noteq> CHR ''='') s))"

text \<open>
  Hexadecimal text is lower-case (\<open>digest('hex')\<close>). \<open>word_bytes n w\<close> are the \<open>n\<close>
  low bytes of \<open>w\<close>, most significant first: a tag is 16 bytes, a digest 32.
\<close>

definition hex_digit :: "nat \<Rightarrow> char" where
  "hex_digit n = ''0123456789abcdef'' ! n"

definition hex_encode :: "byte list \<Rightarrow> string" where
  "hex_encode bs = concat (map (\<lambda>b. [hex_digit (unat b div 16), hex_digit (unat b mod 16)]) bs)"

definition word_bytes :: "nat \<Rightarrow> 'a::len word \<Rightarrow> byte list" where
  "word_bytes n w = map (\<lambda>i. ucast (drop_bit (8 * (n - 1 - i)) w)) [0..<n]"

text \<open>
  Text and its UTF-8 bytes (the encoding \<open>'utf8'\<close> of \<open>update\<close> and \<open>final\<close>): the
  characters of a \<open>string\<close> are those bytes, so both directions are the byte view.
  This is Unicode text. Node writes U+FFFD for an unpaired surrogate of a JavaScript
  string when it encodes, and for bytes that are not UTF-8 when it decodes; strings and
  byte sequences of that kind are outside the model.
\<close>

definition utf8_bytes :: "string \<Rightarrow> byte list" where
  "utf8_bytes s = map (\<lambda>c. of_nat (of_char c)) s"

definition utf8_string :: "byte list \<Rightarrow> string" where
  "utf8_string bs = map (\<lambda>b. char_of (unat b)) bs"

text \<open>Decimal rendering of a number inside a message (\<open>${key.length}\<close>).\<close>

fun show_nat :: "nat \<Rightarrow> string" where
  "show_nat n =
    (if n < 10 then [char_of (48 + n)] else show_nat (n div 10) @ [char_of (48 + n mod 10)])"

section \<open>Authenticated encryption (utils/crypto.js)\<close>

definition IV_LENGTH :: nat where "IV_LENGTH = 12"
definition AUTH_TAG_LENGTH :: nat where "AUTH_TAG_LENGTH = 16"

text \<open>
  \<open>crypto.randomBytes(n)\<close> reads \<open>n\<close> bytes of the random source, which is an argument
  of the model.
\<close>

definition randomBytes :: "(nat \<Rightarrow> byte) \<Rightarrow> nat \<Rightarrow> byte list" where
  "randomBytes rnd n = map rnd [0..<n]"

text \<open>
  AES-256-GCM by its structure. The cipher XORs the data with the keystream of the key
  and the nonce, so the ciphertext is as long as the plaintext; the tag is computed
  from key, nonce and ciphertext. \<open>gcm_seal\<close> stands for \<open>createCipheriv\<close>,
  \<open>update\<close>, \<open>final\<close>, \<open>getAuthTag\<close>; \<open>gcm_open\<close> for \<open>createDecipheriv\<close>,
  \<open>setAuthTag\<close>, \<open>update\<close>, \<open>final\<close>. Both refuse a key that is not 32 bytes and
  an empty nonce. \<open>setAuthTag\<close> refuses a tag whose length GCM does not know, and
  \<open>final\<close> throws unless the given tag is the computed tag cut to its length; only
  then is the plaintext returned.
\<close>

definition gcm_xor :: "node_lib \<Rightarrow> byte list \<Rightarrow> byte list \<Rightarrow> byte list \<Rightarrow> byte list" where
  "gcm_xor L key nonce bs = map (\<lambda>(i, b). b XOR gcm_keystream L key nonce i) (enumerate 0 bs)"

definition gcm_seal ::
  "node_lib \<Rightarrow> byte list \<Rightarrow> byte list \<Rightarrow> byte list \<Rightarrow> js_error + (byte list \<times> byte list)" where
  "gcm_seal L key nonce pt =
    (if length key \<noteq> 32 then Inl (Error ''Invalid key length'')
     else if nonce = [] then Inl (Error ''Invalid initialization vector'')
     else (let ct = gcm_xor L key nonce pt
           in Inr (ct, word_bytes AUTH_TAG_LENGTH (gcm_tag L key nonce ct))))"

definition gcm_open ::
  "node_lib \<Rightarrow> byte list \<Rightarrow> byte list \<Rightarrow> byte list \<Rightarrow> byte list \<Rightarrow> js_error + byte list" where
  "gcm_open L key nonce tag ct =
    (if length key \<noteq> 32 then Inl (Error ''Invalid key length'')
     else if nonce = [] then Inl (Error ''Invalid initialization vector'')
     else if length tag \<notin> {4, 8, 12, 13, 14, 15, 16}
       then Inl (Error ''Invalid authentication tag length'')
     else if take (length tag) (word_bytes 16 (gcm_tag L key nonce ct)) \<noteq> tag
       then Inl (Error ''Unsupported state or unable to authenticate data'')
     else Inr (gcm_xor L key nonce ct))"

text \<open>
  \<open>getEncryptionKey\<close>: \<open>AES_KEY\<close> must be set, non-empty and decode to 32 bytes.
\<close>

definition getEncryptionKey :: "env \<Rightarrow> js_error + byte list" where
  "getEncryptionKey e =
    (case AES_KEY e of
       None \<Rightarrow> Inl (Error ''AES_KEY environment variable is not set'')
     | Some base64Key \<Rightarrow>
        if base64Key = [] then Inl (Error ''AES_KEY environment variable is not set'')
        else (let key = base64_decode base64Key
              in if length key \<noteq> 32
                 then Inl (Error (''AES key must be 32 bytes (256 bits), got '' @
                        show_nat (length key) @ '' bytes''))
                 else Inr key))"

text \<open>
  \<open>encrypt\<close> returns \<open>(encryptedContent, iv, authTag)\<close>, all base64; \<open>decrypt\<close>
  takes them back. The two pieces of base64 that \<open>update\<close> and \<open>final\<close> return are
  together the base64 of the whole ciphertext (the cipher's string decoder carries an
  incomplete group over), and likewise the two pieces of text in \<open>decrypt\<close>. Whatever
  is thrown inside is thrown again with the prefix \<open>Encryption failed: \<close> or
  \<open>Decryption failed: \<close>.
\<close>

definition encrypt ::
  "node_lib \<Rightarrow> env \<Rightarrow> (nat \<Rightarrow> byte) \<Rightarrow> string \<Rightarrow> js_error + (string \<times> string \<times> string)" where
  "encrypt L e rnd plaintext =
    (case getEncryptionKey e of
       Inl err \<Rightarrow> Inl (Error (''Encryption failed: '' @ message err))
     | Inr key \<Rightarrow>
        (let nonce = randomBytes rnd IV_LENGTH
         in case gcm_seal L key nonce (utf8_bytes plaintext) of
              Inl err \<Rightarrow> Inl (Error (''Encryption failed: '' @ message err))
            | Inr (encrypted, tag) \<Rightarrow>
               Inr (base64_encode encrypted, base64_encode nonce, base64_encode tag)))"

definition decrypt :: "node_lib \<Rightarrow> env \<Rightarrow> string \<Rightarrow> string \<Rightarrow> string \<Rightarrow> js_error + string" where
  "decrypt L e encryptedBase64 ivBase64 authTagBase64 =
    (case getEncryptionKey e of
       Inl err \<Rightarrow> Inl (Error (''Decryption failed: '' @ message err))
     | Inr key \<Rightarrow>
        (case gcm_open L key (base64_decode ivBase64) (base64_decode authTagBase64)
                (base64_decode encryptedBase64) of
           Inl err \<Rightarrow> Inl (Error (''Decryption failed: '' @ message err))
         | Inr decrypted \<Rightarrow> Inr (utf8_string decrypted)))"

text \<open>
  \<open>verifyKeyConfiguration\<close> returns \<open>{ configured: true, keyLength, valid }\<close> or
  \<open>{ configured: false, error }\<close>; a property the object lacks is \<open>None\<close>.
\<close>

record key_report =
  configured :: bool
  keyLength :: "nat option"
  valid :: "bool option"
  report_error :: "string option"

definition verifyKeyConfiguration :: "env \<Rightarrow> key_report" where
  "verifyKeyConfiguration e =
    (case getEncryptionKey e of
       Inr key \<Rightarrow>
        \<lparr>configured = True, keyLength = Some (length key), valid = Some (length key = 32),
         report_error = None\<rparr>
     | Inl err \<Rightarrow>
        \<lparr>configured = False, keyLength = None, valid = None,
         report_error = Some (message err)\<rparr>)"

section \<open>Integrity hash (utils/hash.js)\<close>

definition computeSHA256 :: "node_lib \<Rightarrow> string \<Rightarrow> string" where
  "computeSHA256 L content = hex_encode (word_bytes 32 (sha256 L (utf8_bytes content)))"

definition verifyIntegrity :: "node_lib \<Rightarrow> string \<Rightarrow> string \<Rightarrow> bool" where
  "verifyIntegrity L content storedHash = (computeSHA256 L content = storedHash)"

section \<open>JSON web tokens (middleware/auth.js)\<close>

text \<open>
  A token is modelled symbolically: \<open>JWT p k\<close> is the compact serialisation of the
  payload \<open>p\<close> signed under the secret \<open>k\<close>; every other string is \<open>Opaque\<close>.
  The payload of \<open>jwt.sign({ userId }, ...)\<close> has no \<open>type\<close>; the payload of
  \<open>jwt.sign({ userId, type: 'refresh' }, ...)\<close> has one.
\<close>

record jwt_payload =
  userId :: object_id
  token_type :: "string option"
  iat :: nat
  exp :: nat

datatype token = JWT jwt_payload string | Opaque string

fun is_jwt :: "token \<Rightarrow> bool" where
  "is_jwt (JWT p k) = True"
| "is_jwt (Opaque s) = False"

datatype jwt_error = JsonWebTokenError string | TokenExpiredError

text \<open>
  \<open>jwt.sign(payload, secret, { expiresIn })\<close>: refuses a missing secret and a time span
  that does not parse; otherwise stamps \<open>iat\<close> with the clock and \<open>exp = iat + span\<close>.
\<close>

definition jwt_sign ::
  "node_lib \<Rightarrow> nat \<Rightarrow> object_id \<Rightarrow> string option \<Rightarrow> string option \<Rightarrow> string option
    \<Rightarrow> js_error + token" where
  "jwt_sign L now uid ty secret expiresIn =
    (case secret of
       None \<Rightarrow> Inl (Error ''secretOrPrivateKey must have a value'')
     | Some k \<Rightarrow>
        if k = [] then Inl (Error ''secretOrPrivateKey must have a value'')
        else (case expiresIn of
            None \<Rightarrow> Inl (Error ''expiresIn should be a number of seconds or a timespan'')
          | Some span \<Rightarrow>
             (case ms_seconds L span of
                None \<Rightarrow> Inl (Error ''expiresIn should be a number of seconds or a timespan'')
              | Some s \<Rightarrow>
                 Inr (JWT \<lparr>userId = uid, token_type = ty, iat = now, exp = now + s\<rparr> k))))"

text \<open>
  \<open>jwt.verify(token, secret)\<close>: the token must parse, the secret must be given, the
  signature must be the secret's, and the clock must be before \<open>exp\<close>. Nothing else of
  the payload is read.
\<close>

definition jwt_verify :: "nat \<Rightarrow> token \<Rightarrow> string option \<Rightarrow> jwt_error + jwt_payload" where
  "jwt_verify now tok secret =
    (case tok of
       Opaque s \<Rightarrow> Inl (JsonWebTokenError ''jwt malformed'')
     | JWT p k \<Rightarrow>
        (case secret of
           None \<Rightarrow> Inl (JsonWebTokenError ''secret or public key must be provided'')
         | Some s \<Rightarrow>
            if s = [] then Inl (JsonWebTokenError ''secret or public key must be provided'')
            else if k \<noteq> s then Inl (JsonWebTokenError ''invalid signature'')
            else if exp p \<le> now then Inl TokenExpiredError
            else Inr p))"

definition generateAccessToken :: "node_lib \<Rightarrow> env \<Rightarrow> nat \<Rightarrow> object_id \<Rightarrow> js_error + token" where
  "generateAccessToken L e now uid =
    jwt_sign L now uid None (JWT_SECRET e) (or_else (JWT_EXPIRES_IN e) (Some ''1h''))"

definition generateRefreshToken :: "node_lib \<Rightarrow> env \<Rightarrow> nat \<Rightarrow> object_id \<Rightarrow> js_error + token" where
  "generateRefreshToken L e now uid =
    jwt_sign L now uid (Some ''refresh'') (or_else (JWT_REFRESH_SECRET e) (JWT_SECRET e))
      (or_else (JWT_REFRESH_EXPIRES_IN e) (Some ''7d''))"

definition verifyRefreshToken :: "env \<Rightarrow> nat \<Rightarrow> token \<Rightarrow> jwt_error + jwt_payload" where
  "verifyRefreshToken e now tok =
    jwt_verify now tok (or_else (JWT_REFRESH_SECRET e) (JWT_SECRET e))"

section \<open>Users (models/User.js)\<close>

record user =
  user_id :: object_id
  username :: string
  email :: string
  passwordHash :: "string option"
  googleId :: "string option"

text \<open>\<open>comparePassword\<close>: an account without a password hash never matches.\<close>

definition comparePassword :: "node_lib \<Rightarrow> user \<Rightarrow> string \<Rightarrow> js_error + bool" where
  "comparePassword L this candidatePassword =
    (case passwordHash this of
       None \<Rightarrow> Inr False
     | Some h \<Rightarrow> if h = [] then Inr False else bcrypt_compare L candidatePassword h)"

text \<open>\<open>User.findOne({ email })\<close> and \<open>User.findById(id)\<close> over the collection.\<close>

definition findOne_email :: "user list \<Rightarrow> string \<Rightarrow> user option" where
  "findOne_email users e = find (\<lambda>u. email u = e) users"

definition findById :: "user list \<Rightarrow> object_id \<Rightarrow> user option" where
  "findById users i = find (\<lambda>u. user_id u = i) users"

section \<open>HTTP responses\<close>

record user_view =
  view_id :: object_id
  view_email :: string
  view_username :: string

record todo_view =
  todo_view_id :: object_id
  content :: string
  tampered :: bool
  error :: "string option"
  createdAt :: nat
  updatedAt :: nat

text \<open>
  The JSON bodies the controllers send: \<open>{ error }\<close>, \<open>{ error, message }\<close>,
  \<open>{ message }\<close>, the login body \<open>{ message, user, accessToken, refreshToken }\<close>, the
  refresh body \<open>{ message, accessToken }\<close>, the list body \<open>{ todos }\<close> and the body
  \<open>{ message, todo: { id, content, createdAt, updatedAt } }\<close> of a created or updated
  item.
\<close>

datatype body =
  ErrorBody string
| ErrorMessageBody string string
| MessageBody string
| LoginBody string user_view token token
| RefreshBody string token
| TodosBody "todo_view list"
| TodoBody string object_id string nat nat

record response =
  status :: nat
  body :: body
  cookie :: "token option"

definition json :: "nat \<Rightarrow> body \<Rightarrow> response" where
  "json code b = \<lparr>status = code, body = b, cookie = None\<rparr>"

section \<open>Authentication controller\<close>

text \<open>
  \<open>login\<close>: unknown email, an account without password hash (Google sign-in) and a
  wrong password are answered 401; anything thrown inside is answered 500.
\<close>

definition login :: "node_lib \<Rightarrow> env \<Rightarrow> user list \<Rightarrow> nat \<Rightarrow> string \<Rightarrow> string \<Rightarrow> response" where
  "login L e users now mail password =
    (case findOne_email users mail of
       None \<Rightarrow> json 401 (ErrorBody ''Invalid email or password'')
     | Some u \<Rightarrow>
        if falsy (passwordHash u)
        then json 401 (ErrorBody ''This account uses Google Sign-In. Please login with Google.'')
        else (case comparePassword L u password of
            Inl err \<Rightarrow> json 500 (ErrorMessageBody ''Login failed'' (message err))
          | Inr isPasswordValid \<Rightarrow>
             if \<not> isPasswordValid then json 401 (ErrorBody ''Invalid email or password'')
             else (case generateAccessToken L e now (user_id u) of
                 Inl err \<Rightarrow> json 500 (ErrorMessageBody ''Login failed'' (message err))
               | Inr accessToken \<Rightarrow>
                  (case generateRefreshToken L e now (user_id u) of
                     Inl err \<Rightarrow> json 500 (ErrorMessageBody ''Login failed'' (message err))
                   | Inr refreshToken \<Rightarrow>
                      \<lparr>status = 200,
                       body = LoginBody ''Login successful''
                         \<lparr>view_id = user_id u, view_email = email u,
                          view_username = username u\<rparr>
                         accessToken refreshToken,
                       cookie = Some accessToken\<rparr>))))"

text \<open>
  \<open>refresh\<close>: the body's \<open>refreshToken\<close> may be missing (\<open>None\<close>) or empty. The
  handler reads the user collection and writes nothing.
\<close>

definition refresh :: "node_lib \<Rightarrow> env \<Rightarrow> user list \<Rightarrow> nat \<Rightarrow> token option \<Rightarrow> response" where
  "refresh L e users now refreshToken =
    (case refreshToken of
       None \<Rightarrow> json 400 (ErrorBody ''Refresh token is required'')
     | Some tok \<Rightarrow>
        if tok = Opaque [] then json 400 (ErrorBody ''Refresh token is required'')
        else (case verifyRefreshToken e now tok of
            Inl err \<Rightarrow> json 401 (ErrorBody ''Invalid or expired refresh token'')
          | Inr decoded \<Rightarrow>
             (case findById users (userId decoded) of
                None \<Rightarrow> json 401 (ErrorBody ''User not found'')
              | Some u \<Rightarrow>
                 (case generateAccessToken L e now (user_id u) of
                    Inl err \<Rightarrow> json 500 (ErrorBody ''Token refresh failed'')
                  | Inr accessToken \<Rightarrow>
                     \<lparr>status = 200,
                      body = RefreshBody ''Token refreshed successfully'' accessToken,
                      cookie = Some accessToken\<rparr>))))"

section \<open>To-do controller (controllers/todoController.js)\<close>

text \<open>A stored document of the \<open>Todo\<close> collection.\<close>

record todo =
  todo_id :: object_id
  todo_userId :: object_id
  encryptedContent :: string
  iv :: string
  authTag :: string
  integrityHash :: string
  todo_createdAt :: nat
  todo_updatedAt :: nat

text \<open>
  The queries of the controller over the collection: \<open>find({ userId })\<close> sorted by
  \<open>createdAt\<close> descending, \<open>findOne({ _id, userId })\<close>, \<open>deleteOne({ _id, userId })\<close>
  with its \<open>deletedCount\<close>, and \<open>save\<close>, which writes a document back under its \<open>_id\<close>.
\<close>

definition find_by_user :: "todo list \<Rightarrow> object_id \<Rightarrow> todo list" where
  "find_by_user todos uid =
    sort_key (\<lambda>t. - int (todo_createdAt t)) (filter (\<lambda>t. todo_userId t = uid) todos)"

definition findOne_todo :: "todo list \<Rightarrow> object_id \<Rightarrow> object_id \<Rightarrow> todo option" where
  "findOne_todo todos todoId uid = find (\<lambda>t. todo_id t = todoId \<and> todo_userId t = uid) todos"

fun deleteOne :: "todo list \<Rightarrow> object_id \<Rightarrow> object_id \<Rightarrow> nat \<times> todo list" where
  "deleteOne [] todoId uid = (0, [])"
| "deleteOne (t # ts) todoId uid =
    (if todo_id t = todoId \<and> todo_userId t = uid then (1, ts)
     else (case deleteOne ts todoId uid of (n, ts') \<Rightarrow> (n, t # ts')))"

fun save :: "todo list \<Rightarrow> todo \<Rightarrow> todo list" where
  "save [] d = []"
| "save (t # ts) d = (if todo_id t = todo_id d then d # ts else t # save ts d)"

definition INTEGRITY_VIOLATION :: string where
  "INTEGRITY_VIOLATION = ''[INTEGRITY VIOLATION - Content may have been tampered with]''"

definition DECRYPTION_FAILED :: string where
  "DECRYPTION_FAILED = ''[DECRYPTION FAILED - Content is corrupted]''"

text \<open>
  The body of the loop of \<open>getTodos\<close>: what it pushes for one document. The inner
  \<open>try\<close> covers \<open>decrypt\<close> and the integrity check; its \<open>catch\<close> pushes the
  corrupted entry with the error's message.
\<close>

definition read_todo :: "node_lib \<Rightarrow> env \<Rightarrow> todo \<Rightarrow> todo_view" where
  "read_todo L e t =
    (case decrypt L e (encryptedContent t) (iv t) (authTag t) of
       Inr plaintext \<Rightarrow>
        if \<not> verifyIntegrity L plaintext (integrityHash t)
        then \<lparr>todo_view_id = todo_id t, content = INTEGRITY_VIOLATION, tampered = True,
              error = None, createdAt = todo_createdAt t, updatedAt = todo_updatedAt t\<rparr>
        else \<lparr>todo_view_id = todo_id t, content = plaintext, tampered = False,
              error = None, createdAt = todo_createdAt t, updatedAt = todo_updatedAt t\<rparr>
     | Inl err \<Rightarrow>
        \<lparr>todo_view_id = todo_id t, content = DECRYPTION_FAILED, tampered = True,
         error = Some (message err), createdAt = todo_createdAt t,
         updatedAt = todo_updatedAt t\<rparr>)"

text \<open>The loop \<open>for (const todo of todos)\<close> with its accumulator \<open>decryptedTodos\<close>.\<close>

fun getTodos_loop :: "node_lib \<Rightarrow> env \<Rightarrow> todo list \<Rightarrow> todo_view list \<Rightarrow> todo_view list" where
  "getTodos_loop L e [] decryptedTodos = decryptedTodos"
| "getTodos_loop L e (t # ts) decryptedTodos =
    getTodos_loop L e ts (decryptedTodos @ [read_todo L e t])"

definition getTodos :: "node_lib \<Rightarrow> env \<Rightarrow> todo list \<Rightarrow> object_id \<Rightarrow> response" where
  "getTodos L e todos uid =
    json 200 (TodosBody (getTodos_loop L e (find_by_user todos uid) []))"


definition updateTodo ::
  "node_lib \<Rightarrow> env \<Rightarrow> (nat \<Rightarrow> byte) \<Rightarrow> nat \<Rightarrow> todo list \<Rightarrow> object_id \<Rightarrow> object_id \<Rightarrow> string
    \<Rightarrow> response \<times> todo list" where
  "updateTodo L e rnd now todos uid todoId text =
    (case findOne_todo todos todoId uid of
       None \<Rightarrow> (json 404 (ErrorBody ''Todo not found''), todos)
     | Some t \<Rightarrow>
        (let hash = computeSHA256 L text
         in case encrypt L e rnd text of
              Inl err \<Rightarrow>
               (json 500 (ErrorMessageBody ''Failed to update todo'' (message err)), todos)
            | Inr (encrypted, nonce, tag) \<Rightarrow>
               (json 200 (TodoBody ''Todo updated successfully'' (todo_id t) text
                  (todo_createdAt t) now),
                save todos (t\<lparr>encryptedContent := encrypted, iv := nonce, authTag := tag,
                  integrityHash := hash, todo_updatedAt := now\<rparr>))))"

definition deleteTodo :: "todo list \<Rightarrow> object_id \<Rightarrow> object_id \<Rightarrow> response \<times> todo list" where
  "deleteTodo todos uid todoId =
    (case deleteOne todos todoId uid of
       (deletedCount, todos') \<Rightarrow>
        if deletedCount = 0 then (json 404 (ErrorBody ''Todo not found''), todos')
        else (json 200 (MessageBody ''Todo deleted successfully''), todos'))"

section \<open>The C# services\<close>

subsection \<open>HashService\<close>

text \<open>
  \<open>Convert.ToHexString\<close> writes upper-case digits, \<open>ToLowerInvariant\<close> lowers them.
  \<open>string.Equals(a, b, StringComparison.OrdinalIgnoreCase)\<close> compares the upper-cased
  strings. Case mapping is modelled on the ASCII letters, which is all a hexadecimal
  string can hold.
\<close>

definition ascii_upper :: "char \<Rightarrow> char" where
  "ascii_upper c =
    (let n = of_char c :: nat in if 97 \<le> n \<and> n \<le> 122 then char_of (n - 32) else c)"

definition ascii_lower :: "char \<Rightarrow> char" where
  "ascii_lower c =
    (let n = of_char c :: nat in if 65 \<le> n \<and> n \<le> 90 then char_of (n + 32) else c)"

definition ToHexString :: "byte list \<Rightarrow> string" where
  "ToHexString bs =
    concat (map (\<lambda>b. [''0123456789ABCDEF'' ! (unat b div 16),
                       ''0123456789ABCDEF'' ! (unat b mod 16)]) bs)"

definition ToLowerInvariant :: "string \<Rightarrow> string" where
  "ToLowerInvariant s = map ascii_lower s"

definition ToUpperInvariant :: "string \<Rightarrow> string" where
  "ToUpperInvariant s = map ascii_upper s"

definition ComputeSHA256 :: "node_lib \<Rightarrow> string \<Rightarrow> string" where
  "ComputeSHA256 L text =
    ToLowerInvariant (ToHexString (word_bytes 32 (sha256 L (utf8_bytes text))))"

definition VerifyIntegrity :: "node_lib \<Rightarrow> string \<Rightarrow> string \<Rightarrow> bool" where
  "VerifyIntegrity L text storedHash =
    (ToUpperInvariant (ComputeSHA256 L text) = ToUpperInvariant storedHash)"

subsection \<open>AuthService: refresh tokens\<close>

text \<open>
  The entities \<open>RefreshToken\<close> and \<open>User\<close> with the user's collection of refresh
  tokens, the DTOs of a token response, and the exceptions the service throws. Guids
  are abstract numbers, \<open>DateTime\<close>s seconds. The database is the list of users, each
  with its tokens loaded; the generic repository, the unit of work and the JWT service
  are not among the sources, so a query is its predicate on that list and the values
  the JWT service returns are arguments.
\<close>

datatype cs_exception =
  UnauthorizedException string | BusinessException string | DbUpdateException

record RefreshToken =
  rt_Id :: nat
  rt_UserId :: nat
  Token :: string
  ExpiresAt :: nat
  rt_CreatedAt :: nat
  IsRevoked :: bool

record User =
  User_Id :: nat
  Username :: string
  Email :: string
  PasswordHash :: "string option"
  GoogleId :: "string option"
  User_CreatedAt :: nat
  RefreshTokens :: "RefreshToken list"

record UserDto =
  dto_Id :: nat
  dto_Username :: string
  dto_Email :: string
  dto_CreatedAt :: nat

record LoginResponseDto =
  dto_AccessToken :: string
  dto_RefreshToken :: string
  dto_User :: UserDto

text \<open>\<open>ErrorMessages.InvalidToken\<close>.\<close>

definition InvalidToken :: string where
  "InvalidToken = ''Invalid or expired token''"

text \<open>
  All token strings of the \<open>RefreshTokens\<close> table. The table has a unique index on
  \<open>Token\<close> and \<open>Users\<close> has the key \<open>Id\<close>, so a database state has
  \<open>distinct (all_tokens users)\<close> and \<open>distinct (map User_Id users)\<close>.
\<close>

definition all_tokens :: "User list \<Rightarrow> string list" where
  "all_tokens users = concat (map (\<lambda>u. map Token (RefreshTokens u)) users)"

text \<open>
  A change to the tracked entity of the user with a given \<open>Id\<close>, and
  \<open>oldToken = user.RefreshTokens.First(rt => rt.Token == token); oldToken.IsRevoked = true\<close>.
\<close>

fun update_user :: "nat \<Rightarrow> (User \<Rightarrow> User) \<Rightarrow> User list \<Rightarrow> User list" where
  "update_user i f [] = []"
| "update_user i f (u # us) = (if User_Id u = i then f u # us else u # update_user i f us)"

fun revoke_first :: "string \<Rightarrow> RefreshToken list \<Rightarrow> RefreshToken list" where
  "revoke_first tok [] = []"
| "revoke_first tok (rt # rts) =
    (if Token rt = tok then rt\<lparr>IsRevoked := True\<rparr> # rts else rt # revoke_first tok rts)"

text \<open>
  The predicate of the query in \<open>RefreshTokenAsync\<close>:
  \<open>rt.Token == token && !rt.IsRevoked && rt.ExpiresAt > DateTime.UtcNow\<close>.
\<close>

definition token_usable :: "nat \<Rightarrow> string \<Rightarrow> RefreshToken \<Rightarrow> bool" where
  "token_usable now tok rt \<longleftrightarrow> Token rt = tok \<and> \<not> IsRevoked rt \<and> ExpiresAt rt > now"

text \<open>
  \<open>StoreRefreshTokenAsync\<close>: adds a new, unrevoked token that expires after \<open>days\<close>
  days to the user, if there is such a user (\<open>user?.RefreshTokens.Add\<close>), and saves.
  Saving a token string the table already holds violates the unique index and throws.
\<close>

definition StoreRefreshTokenAsync ::
  "nat \<Rightarrow> nat \<Rightarrow> nat \<Rightarrow> User list \<Rightarrow> nat \<Rightarrow> string \<Rightarrow> cs_exception + User list" where
  "StoreRefreshTokenAsync days now guid users uid tok =
    (case find (\<lambda>u. User_Id u = uid) users of
       None \<Rightarrow> Inr users
     | Some u \<Rightarrow>
        if tok \<in> set (all_tokens users) then Inl DbUpdateException
        else Inr (update_user uid
          (\<lambda>u. u\<lparr>RefreshTokens := RefreshTokens u @
            [\<lparr>rt_Id = guid, rt_UserId = uid, Token = tok, ExpiresAt = now + days * 86400,
              rt_CreatedAt = now, IsRevoked = False\<rparr>]\<rparr>) users))"

text \<open>
  \<open>RefreshTokenAsync\<close>: the first user that holds the token unrevoked and unexpired, or
  \<open>UnauthorizedException(InvalidToken)\<close>. Then a new access token (from the JWT
  service, whose implementation is a parameter), the new refresh token \<open>fresh\<close> (what
  \<open>GenerateRefreshToken()\<close> returned), the old token revoked, the new one stored, all
  saved together. When saving throws, nothing of it reaches the database.
\<close>

definition RefreshTokenAsync ::
  "(nat \<Rightarrow> string \<Rightarrow> string) \<Rightarrow> nat \<Rightarrow> nat \<Rightarrow> string \<Rightarrow> nat \<Rightarrow> User list \<Rightarrow> string
    \<Rightarrow> (cs_exception + LoginResponseDto) \<times> User list" where
  "RefreshTokenAsync GenerateAccessToken days now fresh guid users tok =
    (case find (\<lambda>u. \<exists>rt\<in>set (RefreshTokens u). token_usable now tok rt) users of
       None \<Rightarrow> (Inl (UnauthorizedException InvalidToken), users)
     | Some u \<Rightarrow>
        (let accessToken = GenerateAccessToken (User_Id u) (Email u);
             revoked = update_user (User_Id u)
               (\<lambda>x. x\<lparr>RefreshTokens := revoke_first tok (RefreshTokens x)\<rparr>) users
         in case StoreRefreshTokenAsync days now guid revoked (User_Id u) fresh of
              Inl ex \<Rightarrow> (Inl ex, users)
            | Inr stored \<Rightarrow>
               (Inr \<lparr>dto_AccessToken = accessToken, dto_RefreshToken = fresh,
                  dto_User = \<lparr>dto_Id = User_Id u, dto_Username = Username u,
                    dto_Email = Email u, dto_CreatedAt = User_CreatedAt u\<rparr>\<rparr>,
                stored)))"

text \<open>No user holds the token unrevoked: every stored token with this string is revoked.\<close>

definition no_active :: "string \<Rightarrow> User list \<Rightarrow> bool" where
  "no_active tok users \<longleftrightarrow> (\<forall>u\<in>set users. \<forall>rt\<in>set (RefreshTokens u). Token rt = tok \<longrightarrow> IsRevoked rt)"

section \<open>A concrete configuration\<close>

text \<open>
  Small stand-ins for the library primitives, an environment and two accounts, used to
  run the model on concrete inputs. \<open>demo_user\<close> registered with a password,
  \<open>demo_google_user\<close> signed up through Google and has no password hash.
\<close>

definition demo_lib :: node_lib where
  "demo_lib =
    \<lparr>gcm_keystream = (\<lambda>key nonce i. of_nat (length key + length nonce + 7 * i)),
     gcm_tag = (\<lambda>key nonce ct.
        of_nat (length key + 3 * length nonce + 5 * length ct) + ucast (sum_list ct)),
     sha256 = (\<lambda>bs. 43981 + of_nat (length bs) + ucast (sum_list bs)),
     bcrypt_compare = (\<lambda>pw h. Inr (h = ''bcrypt:'' @ pw)),
     ms_seconds = (\<lambda>s. if s = ''1h'' then Some 3600 else if s = ''7d'' then Some 604800 else None)\<rparr>"

definition demo_env :: env where
  "demo_env =
    \<lparr>AES_KEY = Some ''AAECAwQFBgcICQoLDA0ODxAREhMUFRYXGBkaGxwdHh8='',
     JWT_SECRET = Some ''s3cret'',
     JWT_REFRESH_SECRET = None,
     JWT_EXPIRES_IN = None,
     JWT_REFRESH_EXPIRES_IN = None\<rparr>"

definition demo_user :: user where
  "demo_user =
    \<lparr>user_id = 7, username = ''alice'', email = ''alice@example.com'',
     passwordHash = Some ''bcrypt:Passw0rd1'', googleId = None\<rparr>"

definition demo_google_user :: user where
  "demo_google_user =
    \<lparr>user_id = 8, username = ''bob'', email = ''bob@example.com'',
     passwordHash = None, googleId = Some ''g-108''\<rparr>"

definition demo_rnd :: "nat \<Rightarrow> byte" where
  "demo_rnd i = of_nat (3 * i + 1)"

text \<open>
  Four stored items. \<open>demo_todo\<close> is what \<open>createTodo\<close> stores for \<open>buy milk\<close> of
  user 7; \<open>demo_todo_bad_tag\<close> has one bit of the tag changed, \<open>demo_todo_bad_hash\<close> one
  digit of the integrity hash; \<open>demo_todo_other\<close> belongs to user 8.
\<close>

definition demo_todo :: todo where
  "demo_todo =
    \<lparr>todo_id = 1, todo_userId = 7, encryptedContent = ''TkZDYSUmOjY='',
     iv = ''AQQHCg0QExYZHB8i'', authTag = ''AAAAAAAAAAAAAAAAAAABXw=='',
     integrityHash = ''000000000000000000000000000000000000000000000000000000000000abf2'',
     todo_createdAt = 5000, todo_updatedAt = 5000\<rparr>"

definition demo_todo_bad_tag :: todo where
  "demo_todo_bad_tag =
    demo_todo\<lparr>todo_id := 2, authTag := ''AAAAAAAAAAAAAAAAAAABXg=='', todo_createdAt := 5001,
      todo_updatedAt := 5001\<rparr>"

definition demo_todo_bad_hash :: todo where
  "demo_todo_bad_hash =
    demo_todo\<lparr>todo_id := 3,
      integrityHash := ''000000000000000000000000000000000000000000000000000000000000abf3'',
      todo_createdAt := 5002, todo_updatedAt := 5002\<rparr>"

definition demo_todo_other :: todo where
  "demo_todo_other = demo_todo\<lparr>todo_id := 4, todo_userId := 8, todo_createdAt := 5003,
      todo_updatedAt := 5003\<rparr>"

definition demo_todos :: "todo list" where
  "demo_todos = [demo_todo, demo_todo_bad_tag, demo_todo_bad_hash, demo_todo_other]"

text \<open>A user of the C# service and the access tokens of a stand-in JWT service.\<close>

definition demo_cs_users :: "User list" where
  "demo_cs_users =
    [\<lparr>User_Id = 1, Username = ''alice'', Email = ''alice@example.com'',
      PasswordHash = Some ''bcrypt:Passw0rd1'', GoogleId = None, User_CreatedAt = 900,
      RefreshTokens = []\<rparr>]"

definition demo_GenerateAccessToken :: "nat \<Rightarrow> string \<Rightarrow> string" where
  "demo_GenerateAccessToken uid mail = ''access:'' @ mail"

text \<open>
  The database after \<open>alice\<close> has logged in at time 1000 (her token \<open>rt-one\<close> stored
  for 7 days), and after that token has been used once at time 2000.
\<close>

definition demo_cs_users1 :: "User list" where
  "demo_cs_users1 =
    [\<lparr>User_Id = 1, Username = ''alice'', Email = ''alice@example.com'',
      PasswordHash = Some ''bcrypt:Passw0rd1'', GoogleId = None, User_CreatedAt = 900,
      RefreshTokens =
        [\<lparr>rt_Id = 50, rt_UserId = 1, Token = ''rt-one'', ExpiresAt = 605800,
          rt_CreatedAt = 1000, IsRevoked = False\<rparr>]\<rparr>]"

definition demo_cs_users2 :: "User list" where
  "demo_cs_users2 =
    [\<lparr>User_Id = 1, Username = ''alice'', Email = ''alice@example.com'',
      PasswordHash = Some ''bcrypt:Passw0rd1'', GoogleId = None, User_CreatedAt = 900,
      RefreshTokens =
        [\<lparr>rt_Id = 50, rt_UserId = 1, Token = ''rt-one'', ExpiresAt = 605800,
          rt_CreatedAt = 1000, IsRevoked = True\<rparr>,
         \<lparr>rt_Id = 51, rt_UserId = 1, Token = ''rt-two'', ExpiresAt = 606800,
          rt_CreatedAt = 2000, IsRevoked = False\<rparr>]\<rparr>]"

section \<open>Auxiliary facts\<close>

lemma byte_lt: "unat (a::byte) < 256"
  using unsigned_less [of a] by simp
























lemma find_Some_holds: "find P xs = Some x \<Longrightarrow> P x"
  by (induction xs) (auto split: if_splits)

lemma jwt_sign_Inr:
  "jwt_sign L now uid ty secret span = Inr tok \<longleftrightarrow>
    (\<exists>k sp s. secret = Some k \<and> k \<noteq> [] \<and> span = Some sp \<and> ms_seconds L sp = Some s \<and>
      tok = JWT \<lparr>userId = uid, token_type = ty, iat = now, exp = now + s\<rparr> k)"
  by (auto simp: jwt_sign_def split: option.splits)

lemma jwt_verify_Inr:
  "jwt_verify now (JWT p k) secret = Inr q \<longleftrightarrow>
    (secret = Some k \<and> k \<noteq> [] \<and> now < exp p \<and> q = p)"
  by (auto simp: jwt_verify_def split: option.splits)

lemma refresh_stateless:
  assumes ok: "status (refresh L e users now1 (Some (JWT p k))) = 200"
    and unexpired: "now2 < exp p"
  shows "\<exists>a. refresh L e users now2 (Some (JWT p k)) =
    \<lparr>status = 200, body = RefreshBody ''Token refreshed successfully'' a, cookie = Some a\<rparr>"
proof -
  from ok obtain d where verified: "verifyRefreshToken e now1 (JWT p k) = Inr d"
    by (cases "verifyRefreshToken e now1 (JWT p k)") (simp_all add: refresh_def json_def)
  then have secret: "or_else (JWT_REFRESH_SECRET e) (JWT_SECRET e) = Some k" "k \<noteq> []" and d: "d = p"
    unfolding verifyRefreshToken_def jwt_verify_Inr by simp_all
  from ok verified d obtain u where known: "findById users (userId p) = Some u"
    by (cases "findById users (userId p)") (simp_all add: refresh_def json_def)
  from ok verified d known obtain a1 where "generateAccessToken L e now1 (user_id u) = Inr a1"
    by (cases "generateAccessToken L e now1 (user_id u)") (simp_all add: refresh_def json_def)
  then obtain a2 where again: "generateAccessToken L e now2 (user_id u) = Inr a2"
    unfolding generateAccessToken_def jwt_sign_Inr by blast
  have "verifyRefreshToken e now2 (JWT p k) = Inr p"
    unfolding verifyRefreshToken_def jwt_verify_Inr using secret unexpired by simp
  with known again show ?thesis
    by (simp add: refresh_def)
qed

lemma find_None_iff_all: "find P xs = None \<longleftrightarrow> (\<forall>x\<in>set xs. \<not> P x)"
  by (induction xs) auto

lemma foreign_not_found:
  assumes "distinct (map todo_id todos)" "t \<in> set todos" "todo_id t = tid" "todo_userId t \<noteq> uid"
  shows "\<forall>x\<in>set todos. \<not> (todo_id x = tid \<and> todo_userId x = uid)"
proof
  fix x assume x: "x \<in> set todos"
  show "\<not> (todo_id x = tid \<and> todo_userId x = uid)"
  proof
    assume "todo_id x = tid \<and> todo_userId x = uid"
    with assms x have "todo_id x = todo_id t" "x \<noteq> t" by auto
    with assms(1,2) x show False
      by (meson distinct_map inj_onD)
  qed
qed

lemma deleteOne_no_match:
  "\<forall>x\<in>set ts. \<not> (todo_id x = tid \<and> todo_userId x = uid) \<Longrightarrow> deleteOne ts tid uid = (0, ts)"
  by (induction ts) auto

lemma deleteOne_match:
  "distinct (map todo_id ts) \<Longrightarrow> t \<in> set ts \<Longrightarrow> todo_id t = tid \<Longrightarrow> todo_userId t = uid \<Longrightarrow>
    deleteOne ts tid uid = (1, remove1 t ts)"
proof (induction ts)
  case Nil then show ?case by simp
next
  case (Cons x xs)
  show ?case
  proof (cases "x = t")
    case True with Cons.prems show ?thesis by simp
  next
    case False
    with Cons.prems have "t \<in> set xs" "todo_id x \<noteq> todo_id t" by force+
    with Cons show ?thesis by auto
  qed
qed

lemma deleteOne_frame:
  "filter (\<lambda>t. todo_userId t \<noteq> uid) (snd (deleteOne ts tid uid)) = filter (\<lambda>t. todo_userId t \<noteq> uid) ts"
  by (induction ts) (auto split: prod.splits)

lemma save_frame:
  "distinct (map todo_id ts) \<Longrightarrow> t \<in> set ts \<Longrightarrow> todo_userId t = uid \<Longrightarrow>
   todo_id d = todo_id t \<Longrightarrow> todo_userId d = uid \<Longrightarrow>
    filter (\<lambda>x. todo_userId x \<noteq> uid) (save ts d) = filter (\<lambda>x. todo_userId x \<noteq> uid) ts"
proof (induction ts)
  case Nil then show ?case by simp
next
  case (Cons x xs)
  show ?case
  proof (cases "todo_id x = todo_id t")
    case True
    with Cons.prems have "x = t" by force
    with Cons.prems show ?thesis by simp
  next
    case False
    with Cons.prems have "t \<in> set xs" by auto
    with Cons False show ?thesis by auto
  qed
qed

lemma find_by_user_set: "set (find_by_user todos uid) = {t \<in> set todos. todo_userId t = uid}"
  by (auto simp: find_by_user_def)

lemma read_todo_id: "todo_view_id (read_todo L e t) = todo_id t"
  by (simp add: read_todo_def split: sum.splits)

lemma getTodos_loop_map: "getTodos_loop L e ts acc = acc @ map (read_todo L e) ts"
  by (induction ts arbitrary: acc) simp_all

lemma updateTodo_frame:
  assumes "distinct (map todo_id todos)"
  shows "filter (\<lambda>t. todo_userId t \<noteq> uid) (snd (updateTodo L e rnd now todos uid tid c)) =
    filter (\<lambda>t. todo_userId t \<noteq> uid) todos"
proof (cases "findOne_todo todos tid uid")
  case None
  then show ?thesis by (simp add: updateTodo_def)
next
  case (Some t)
  then have t: "t \<in> set todos" "todo_userId t = uid"
    unfolding findOne_todo_def by (auto dest: find_Some_holds simp: find_Some_iff)
  show ?thesis
  proof (cases "encrypt L e rnd c")
    case (Inl err)
    with Some show ?thesis by (simp add: updateTodo_def)
  next
    case (Inr r)
    obtain a b g where r: "r = (a, b, g)" by (cases r)
    let ?d = "t\<lparr>encryptedContent := a, iv := b, authTag := g,
      integrityHash := computeSHA256 L c, todo_updatedAt := now\<rparr>"
    have "filter (\<lambda>x. todo_userId x \<noteq> uid) (save todos ?d) =
        filter (\<lambda>x. todo_userId x \<noteq> uid) todos"
      using t by (intro save_frame [OF assms t(1) t(2)]) simp_all
    then show ?thesis
      using Some Inr r by (simp add: updateTodo_def)
  qed
qed

lemma all_below_16: "(\<forall>n<16. P n) \<longleftrightarrow> list_all P [0..<16]"
  by (auto simp: list_all_iff)

lemma hex_lower_upper: "n < 16 \<Longrightarrow> ascii_lower (''0123456789ABCDEF'' ! n) = hex_digit n"
proof -
  have "\<forall>n<16. ascii_lower (''0123456789ABCDEF'' ! n) = hex_digit n"
    unfolding all_below_16 by code_simp
  then show "n < 16 \<Longrightarrow> ascii_lower (''0123456789ABCDEF'' ! n) = hex_digit n" by blast
qed

lemma hex_digit_lower: "n < 16 \<Longrightarrow> hex_digit n \<in> set ''0123456789abcdef''"
  unfolding hex_digit_def by (rule nth_mem) simp

lemma nibble_lt: "unat (b::byte) div 16 < 16" "unat (b::byte) mod 16 < 16"
  using byte_lt [of b] by simp_all

lemma upper_idem: "ascii_upper (ascii_upper c) = ascii_upper c"
  by (auto simp: ascii_upper_def Let_def)

lemma ComputeSHA256_eq: "ComputeSHA256 L c = computeSHA256 L c"
proof -
  have "map ascii_lower (ToHexString bs) = hex_encode bs" for bs
    by (induction bs) (simp_all add: ToHexString_def hex_encode_def hex_lower_upper nibble_lt)
  then show ?thesis by (simp add: ComputeSHA256_def computeSHA256_def ToLowerInvariant_def)
qed

lemma computeSHA256_shape:
  "length (computeSHA256 L c) = 64 \<and> set (computeSHA256 L c) \<subseteq> set ''0123456789abcdef''"
proof -
  have len: "length (hex_encode bs) = 2 * length bs" for bs
    by (induction bs) (simp_all add: hex_encode_def)
  have digits: "set (hex_encode bs) \<subseteq> set ''0123456789abcdef''" for bs
  proof
    fix c assume "c \<in> set (hex_encode bs)"
    then have "\<exists>b::byte. c = hex_digit (unat b div 16) \<or> c = hex_digit (unat b mod 16)"
      by (auto simp: hex_encode_def)
    then obtain b :: byte where "c = hex_digit (unat b div 16) \<or> c = hex_digit (unat b mod 16)" ..
    then show "c \<in> set ''0123456789abcdef''"
      using hex_digit_lower [OF nibble_lt(1) [of b]] hex_digit_lower [OF nibble_lt(2) [of b]]
      by blast
  qed
  show ?thesis
    using len digits by (simp add: computeSHA256_def word_bytes_def)
qed

lemma revoke_first_Token: "map Token (revoke_first tok rts) = map Token rts"
  by (induction rts) simp_all

lemma revoke_first_revokes:
  "distinct (map Token rts) \<Longrightarrow> rt \<in> set (revoke_first tok rts) \<Longrightarrow> Token rt = tok \<Longrightarrow> IsRevoked rt"
proof (induction rts)
  case Nil
  then show ?case by simp
next
  case (Cons a rts)
  show ?case
  proof (cases "Token a = tok")
    case True
    with Cons.prems(2) have "rt = a\<lparr>IsRevoked := True\<rparr> \<or> rt \<in> set rts" by simp
    then show ?thesis
    proof
      assume "rt = a\<lparr>IsRevoked := True\<rparr>"
      then show ?thesis by simp
    next
      assume "rt \<in> set rts"
      then have "Token rt \<in> set (map Token rts)" by simp
      with Cons.prems(1,3) True show ?thesis by simp
    qed
  next
    case False
    with Cons.prems(2) have "rt = a \<or> rt \<in> set (revoke_first tok rts)" by simp
    then show ?thesis
    proof
      assume "rt = a"
      with False Cons.prems(3) show ?thesis by simp
    next
      assume "rt \<in> set (revoke_first tok rts)"
      with Cons.IH Cons.prems(1,3) show ?thesis by simp
    qed
  qed
qed

lemma update_user_ids:
  "(\<And>u. User_Id (f u) = User_Id u) \<Longrightarrow> map User_Id (update_user i f us) = map User_Id us"
  by (induction us) simp_all

lemma all_tokens_Cons:
  "all_tokens (u # us) = map Token (RefreshTokens u) @ all_tokens us"
  by (simp add: all_tokens_def)

lemma all_tokens_revoke:
  "all_tokens (update_user i (\<lambda>x. x\<lparr>RefreshTokens := revoke_first tok (RefreshTokens x)\<rparr>) us) =
    all_tokens us"
  by (induction us) (simp_all add: all_tokens_Cons revoke_first_Token)

lemma set_update_user:
  "x \<in> set (update_user i f us) \<Longrightarrow> x \<in> set us \<or> (\<exists>u\<in>set us. x = f u)"
proof (induction us)
  case Nil
  then show ?case by simp
next
  case (Cons a us)
  show ?case
  proof (cases "User_Id a = i")
    case True
    with Cons.prems show ?thesis by auto
  next
    case False
    with Cons.prems have "x = a \<or> x \<in> set (update_user i f us)" by simp
    with Cons.IH show ?thesis by auto
  qed
qed

lemma no_active_absent: "tok \<notin> set (all_tokens us) \<Longrightarrow> no_active tok us"
  unfolding no_active_def all_tokens_def by fastforce

lemma no_active_Cons:
  "no_active tok (u # us) \<longleftrightarrow>
    (\<forall>rt\<in>set (RefreshTokens u). Token rt = tok \<longrightarrow> IsRevoked rt) \<and> no_active tok us"
  by (simp add: no_active_def)

lemma usable_token_stored:
  "u \<in> set us \<Longrightarrow> rt \<in> set (RefreshTokens u) \<Longrightarrow> token_usable now tok rt \<Longrightarrow>
    tok \<in> set (all_tokens us)"
  unfolding all_tokens_def token_usable_def by fastforce

lemma revoke_no_active:
  assumes "distinct (map User_Id us)" "distinct (all_tokens us)"
    and "find (\<lambda>u. \<exists>rt\<in>set (RefreshTokens u). token_usable now tok rt) us = Some u"
  shows "no_active tok
    (update_user (User_Id u) (\<lambda>x. x\<lparr>RefreshTokens := revoke_first tok (RefreshTokens x)\<rparr>) us)"
  using assms
proof (induction us)
  case Nil
  then show ?case by simp
next
  case (Cons a us)
  from Cons.prems(2) have da: "distinct (map Token (RefreshTokens a))"
    and dus: "distinct (all_tokens us)"
    and disj: "set (map Token (RefreshTokens a)) \<inter> set (all_tokens us) = {}"
    by (simp_all add: all_tokens_Cons)
  show ?case
  proof (cases "\<exists>rt\<in>set (RefreshTokens a). token_usable now tok rt")
    case True
    with Cons.prems(3) have ua: "u = a" by simp
    from True have "tok \<in> set (map Token (RefreshTokens a))"
      unfolding token_usable_def by force
    with disj have "tok \<notin> set (all_tokens us)" by blast
    then have rest: "no_active tok us" by (rule no_active_absent)
    have "\<forall>rt\<in>set (revoke_first tok (RefreshTokens a)). Token rt = tok \<longrightarrow> IsRevoked rt"
      using revoke_first_revokes [OF da] by blast
    with rest ua show ?thesis by (simp add: no_active_Cons)
  next
    case False
    with Cons.prems(3) have found:
      "find (\<lambda>u. \<exists>rt\<in>set (RefreshTokens u). token_usable now tok rt) us = Some u"
      by simp
    then obtain rt where mem: "u \<in> set us" and rt: "rt \<in> set (RefreshTokens u)"
      "token_usable now tok rt"
      unfolding find_Some_iff by (metis nth_mem)
    from mem Cons.prems(1) have ne: "User_Id a \<noteq> User_Id u" by force
    from mem rt have "tok \<in> set (all_tokens us)" by (rule usable_token_stored)
    with disj have "tok \<notin> set (map Token (RefreshTokens a))" by blast
    then have head: "\<forall>rt\<in>set (RefreshTokens a). Token rt = tok \<longrightarrow> IsRevoked rt"
      by force
    from Cons.prems(1) have "distinct (map User_Id us)" by simp
    from Cons.IH [OF this dus found] head ne show ?thesis
      by (simp add: no_active_Cons)
  qed
qed

lemma store_no_active:
  assumes "no_active tok us" "Token new \<noteq> tok"
  shows "no_active tok (update_user i (\<lambda>u. u\<lparr>RefreshTokens := RefreshTokens u @ [new]\<rparr>) us)"
  unfolding no_active_def
proof (intro ballI impI)
  fix u rt
  assume u: "u \<in> set (update_user i (\<lambda>u. u\<lparr>RefreshTokens := RefreshTokens u @ [new]\<rparr>) us)"
    and rt: "rt \<in> set (RefreshTokens u)" and tok: "Token rt = tok"
  from set_update_user [OF u] show "IsRevoked rt"
  proof
    assume "u \<in> set us"
    with assms(1) rt tok show ?thesis unfolding no_active_def by blast
  next
    assume "\<exists>v\<in>set us. u = v\<lparr>RefreshTokens := RefreshTokens v @ [new]\<rparr>"
    then obtain v where v: "v \<in> set us" "u = v\<lparr>RefreshTokens := RefreshTokens v @ [new]\<rparr>"
      by blast
    with rt have "rt \<in> set (RefreshTokens v) \<or> rt = new" by auto
    with assms tok v(1) show ?thesis unfolding no_active_def by blast
  qed
qed

lemma no_active_refused:
  assumes "no_active tok us"
  shows "RefreshTokenAsync gen days now fresh guid us tok =
    (Inl (UnauthorizedException InvalidToken), us)"
proof -
  have "\<forall>u\<in>set us. \<not> (\<exists>rt\<in>set (RefreshTokens u). token_usable now tok rt)"
    using assms unfolding no_active_def token_usable_def by blast
  then have "find (\<lambda>u. \<exists>rt\<in>set (RefreshTokens u). token_usable now tok rt) us = None"
    unfolding find_None_iff by blast
  then show ?thesis by (simp add: RefreshTokenAsync_def)
qed

lemma all_tokens_store:
  assumes "\<exists>u\<in>set us. User_Id u = i"
  shows "set (all_tokens (update_user i (\<lambda>u. u\<lparr>RefreshTokens := RefreshTokens u @ [new]\<rparr>) us)) =
      insert (Token new) (set (all_tokens us)) \<and>
    (distinct (all_tokens us) \<and> Token new \<notin> set (all_tokens us) \<longrightarrow>
      distinct (all_tokens (update_user i (\<lambda>u. u\<lparr>RefreshTokens := RefreshTokens u @ [new]\<rparr>) us)))"
  using assms
proof (induction us)
  case Nil
  then show ?case by simp
next
  case (Cons a us)
  show ?case
  proof (cases "User_Id a = i")
    case True
    then show ?thesis by (auto simp: all_tokens_Cons)
  next
    case False
    with Cons.prems have "\<exists>u\<in>set us. User_Id u = i" by simp
    from Cons.IH [OF this] False show ?thesis by (auto simp: all_tokens_Cons)
  qed
qed

lemma store_usable:
  assumes "\<exists>u\<in>set us. User_Id u = i" "\<not> IsRevoked new" "now < ExpiresAt new"
  shows "\<exists>u\<in>set (update_user i (\<lambda>u. u\<lparr>RefreshTokens := RefreshTokens u @ [new]\<rparr>) us).
    \<exists>rt\<in>set (RefreshTokens u). token_usable now (Token new) rt"
  using assms(1)
proof (induction us)
  case Nil
  then show ?case by simp
next
  case (Cons a us)
  show ?case
  proof (cases "User_Id a = i")
    case True
    have "token_usable now (Token new) new"
      using assms(2,3) by (simp add: token_usable_def)
    with True show ?thesis by simp
  next
    case False
    with Cons.prems have "\<exists>u\<in>set us. User_Id u = i" by simp
    from Cons.IH [OF this] False show ?thesis by simp
  qed
qed

lemma refresh_first:
  assumes ids: "distinct (map User_Id users)" and toks: "distinct (all_tokens users)"
    and found: "find (\<lambda>u. \<exists>rt\<in>set (RefreshTokens u). token_usable now tok rt) users = Some u"
    and fresh: "fresh \<notin> set (all_tokens users)"
  shows "\<exists>users'. RefreshTokenAsync gen days now fresh guid users tok =
      (Inr \<lparr>dto_AccessToken = gen (User_Id u) (Email u), dto_RefreshToken = fresh,
        dto_User = \<lparr>dto_Id = User_Id u, dto_Username = Username u,
          dto_Email = Email u, dto_CreatedAt = User_CreatedAt u\<rparr>\<rparr>, users') \<and>
     distinct (map User_Id users') \<and> distinct (all_tokens users') \<and> no_active tok users'"
proof -
  from found obtain rt where u: "u \<in> set users" and rt: "rt \<in> set (RefreshTokens u)"
    "token_usable now tok rt"
    unfolding find_Some_iff by (metis nth_mem)
  let ?revoked = "update_user (User_Id u)
      (\<lambda>x. x\<lparr>RefreshTokens := revoke_first tok (RefreshTokens x)\<rparr>) users"
  let ?new = "\<lparr>rt_Id = guid, rt_UserId = User_Id u, Token = fresh,
      ExpiresAt = now + days * 86400, rt_CreatedAt = now, IsRevoked = False\<rparr>"
  let ?stored = "update_user (User_Id u)
      (\<lambda>x. x\<lparr>RefreshTokens := RefreshTokens x @ [?new]\<rparr>) ?revoked"
  have ids_revoked: "map User_Id ?revoked = map User_Id users"
    by (rule update_user_ids) simp
  moreover from u have "User_Id u \<in> set (map User_Id users)" by simp
  ultimately have "User_Id u \<in> set (map User_Id ?revoked)" by simp
  then have ex: "\<exists>x\<in>set ?revoked. User_Id x = User_Id u" by force
  then have "find (\<lambda>x. User_Id x = User_Id u) ?revoked \<noteq> None"
    unfolding find_None_iff by blast
  then obtain x where present: "find (\<lambda>x. User_Id x = User_Id u) ?revoked = Some x" by blast
  have unseen: "fresh \<notin> set (all_tokens ?revoked)"
    using fresh by (simp add: all_tokens_revoke)
  have store: "StoreRefreshTokenAsync days now guid ?revoked (User_Id u) fresh = Inr ?stored"
    using present unseen by (simp add: StoreRefreshTokenAsync_def)
  from u rt have "tok \<in> set (all_tokens users)" by (rule usable_token_stored)
  with fresh have ne: "Token ?new \<noteq> tok" by auto
  have "no_active tok ?revoked"
    using ids toks found by (rule revoke_no_active)
  then have inactive: "no_active tok ?stored"
    using ne by (rule store_no_active)
  have "map User_Id ?stored = map User_Id ?revoked"
    by (rule update_user_ids) simp
  with ids_revoked ids have ids': "distinct (map User_Id ?stored)" by simp
  have toks': "distinct (all_tokens ?stored)"
    using all_tokens_store [OF ex, of ?new] toks unseen by (simp add: all_tokens_revoke)
  have first: "RefreshTokenAsync gen days now fresh guid users tok =
    (Inr \<lparr>dto_AccessToken = gen (User_Id u) (Email u), dto_RefreshToken = fresh,
        dto_User = \<lparr>dto_Id = User_Id u, dto_Username = Username u,
          dto_Email = Email u, dto_CreatedAt = User_CreatedAt u\<rparr>\<rparr>, ?stored)"
    using found store by (simp add: RefreshTokenAsync_def)
  from first ids' toks' inactive show ?thesis by blast
qed

lemma refresh_success_cases:
  assumes "RefreshTokenAsync gen days now fresh guid users tok = (Inr dto, users')"
  shows "\<exists>u. find (\<lambda>u. \<exists>rt\<in>set (RefreshTokens u). token_usable now tok rt) users = Some u \<and>
    fresh \<notin> set (all_tokens users)"
proof (cases "find (\<lambda>u. \<exists>rt\<in>set (RefreshTokens u). token_usable now tok rt) users")
  case None
  with assms show ?thesis by (simp add: RefreshTokenAsync_def)
next
  case (Some u)
  let ?revoked = "update_user (User_Id u)
      (\<lambda>x. x\<lparr>RefreshTokens := revoke_first tok (RefreshTokens x)\<rparr>) users"
  from assms Some have "\<exists>stored. StoreRefreshTokenAsync days now guid ?revoked (User_Id u) fresh = Inr stored"
    by (cases "StoreRefreshTokenAsync days now guid ?revoked (User_Id u) fresh")
      (simp_all add: RefreshTokenAsync_def)
  then have "fresh \<notin> set (all_tokens ?revoked) \<or> find (\<lambda>x. User_Id x = User_Id u) ?revoked = None"
    by (auto simp: StoreRefreshTokenAsync_def split: option.splits if_splits)
  moreover have "find (\<lambda>x. User_Id x = User_Id u) ?revoked \<noteq> None"
  proof -
    from Some have "u \<in> set users" unfolding find_Some_iff by (metis nth_mem)
    then have "User_Id u \<in> set (map User_Id users)" by simp
    moreover have "map User_Id ?revoked = map User_Id users"
      by (rule update_user_ids) simp
    ultimately have "User_Id u \<in> set (map User_Id ?revoked)" by simp
    then have "\<exists>x\<in>set ?revoked. User_Id x = User_Id u" by force
    then show ?thesis unfolding find_None_iff by blast
  qed
  ultimately have "fresh \<notin> set (all_tokens users)" by (simp add: all_tokens_revoke)
  with Some show ?thesis by simp
qed

lemma store_then_refresh:
  assumes ids: "distinct (map User_Id users)" and toks: "distinct (all_tokens users)"
    and present: "\<exists>u\<in>set users. User_Id u = uid"
    and stored: "StoreRefreshTokenAsync days t0 g users uid tok = Inr users1"
    and in_time: "now < t0 + days * 86400"
    and fresh: "fresh \<notin> set (all_tokens users1)"
  shows "\<exists>dto users2. RefreshTokenAsync gen days now fresh guid users1 tok = (Inr dto, users2) \<and>
    dto_RefreshToken dto = fresh"
proof -
  let ?new = "\<lparr>rt_Id = g, rt_UserId = uid, Token = tok, ExpiresAt = t0 + days * 86400,
      rt_CreatedAt = t0, IsRevoked = False\<rparr>"
  from present have "find (\<lambda>u. User_Id u = uid) users \<noteq> None"
    unfolding find_None_iff by blast
  with stored have unseen: "tok \<notin> set (all_tokens users)"
    and users1: "users1 = update_user uid (\<lambda>u. u\<lparr>RefreshTokens := RefreshTokens u @ [?new]\<rparr>) users"
    by (auto simp: StoreRefreshTokenAsync_def split: option.splits if_splits)
  have "map User_Id users1 = map User_Id users"
    unfolding users1 by (rule update_user_ids) simp
  with ids have ids1: "distinct (map User_Id users1)" by simp
  have toks1: "distinct (all_tokens users1)"
    using all_tokens_store [OF present, of ?new] toks unseen unfolding users1 by simp
  have "\<exists>u\<in>set users1. \<exists>rt\<in>set (RefreshTokens u). token_usable now (Token ?new) rt"
    unfolding users1 using present by (rule store_usable) (simp_all add: in_time)
  then have "\<exists>u\<in>set users1. \<exists>rt\<in>set (RefreshTokens u). token_usable now tok rt"
    by simp
  then have "find (\<lambda>u. \<exists>rt\<in>set (RefreshTokens u). token_usable now tok rt) users1 \<noteq> None"
    unfolding find_None_iff by blast
  then obtain u where
    "find (\<lambda>u. \<exists>rt\<in>set (RefreshTokens u). token_usable now tok rt) users1 = Some u"
    by blast
  from refresh_first [OF ids1 toks1 this fresh, of gen days guid] show ?thesis
    by auto
qed

lemma refresh_consumes:
  assumes ids: "distinct (map User_Id users)" and toks: "distinct (all_tokens users)"
    and ok: "RefreshTokenAsync gen days now fresh guid users tok = (Inr dto, users')"
  shows "dto_RefreshToken dto = fresh \<and> distinct (map User_Id users') \<and>
    distinct (all_tokens users') \<and>
    (\<forall>now' fresh' guid'. RefreshTokenAsync gen days now' fresh' guid' users' tok =
        (Inl (UnauthorizedException InvalidToken), users'))"
proof -
  from refresh_success_cases [OF ok] obtain u where
    found: "find (\<lambda>u. \<exists>rt\<in>set (RefreshTokens u). token_usable now tok rt) users = Some u"
    and fresh: "fresh \<notin> set (all_tokens users)"
    by blast
  from refresh_first [OF ids toks found fresh, of gen days guid] ok
  have "dto_RefreshToken dto = fresh" "distinct (map User_Id users')"
    "distinct (all_tokens users')" "no_active tok users'"
    by auto
  then show ?thesis by (simp add: no_active_refused)
qed



lemma demo_decrypt:
  "decrypt demo_lib demo_env ''TkZDYSUmOjY='' ''AQQHCg0QExYZHB8i'' ''AAAAAAAAAAAAAAAAAAABXw=='' =
    Inr ''buy milk''"
  by code_simp

lemma demo_decrypt_bad_tag:
  "decrypt demo_lib demo_env ''TkZDYSUmOjY='' ''AQQHCg0QExYZHB8i'' ''AAAAAAAAAAAAAAAAAAABXg=='' =
    Inl (Error ''Decryption failed: Unsupported state or unable to authenticate data'')"
  by code_simp

lemma demo_hash:
  "computeSHA256 demo_lib ''buy milk'' =
    ''000000000000000000000000000000000000000000000000000000000000abf2''"
  by code_simp

lemma demo_read:
  "read_todo demo_lib demo_env demo_todo =
     \<lparr>todo_view_id = 1, content = ''buy milk'', tampered = False, error = None,
      createdAt = 5000, updatedAt = 5000\<rparr>"
  "read_todo demo_lib demo_env demo_todo_bad_tag =
     \<lparr>todo_view_id = 2, content = ''[DECRYPTION FAILED - Content is corrupted]'',
      tampered = True,
      error = Some ''Decryption failed: Unsupported state or unable to authenticate data'',
      createdAt = 5001, updatedAt = 5001\<rparr>"
  "read_todo demo_lib demo_env demo_todo_bad_hash =
     \<lparr>todo_view_id = 3,
      content = ''[INTEGRITY VIOLATION - Content may have been tampered with]'',
      tampered = True, error = None, createdAt = 5002, updatedAt = 5002\<rparr>"
  by (simp_all add: read_todo_def verifyIntegrity_def demo_todo_def demo_todo_bad_tag_def
      demo_todo_bad_hash_def demo_decrypt demo_decrypt_bad_tag demo_hash
      DECRYPTION_FAILED_def INTEGRITY_VIOLATION_def)

section \<open>Results\<close>

text \<open>
  C1 (as stated: a used refresh token is refused the second time). The refresh token
  \<open>alice\<close> got from her login at time 1000 is presented to \<open>refresh\<close> at time 2000 and
  again at time 3000: both calls are answered 200 with a new access token, and neither
  body carries a new refresh token.
\<close>

theorem C1_replay_accepted_counterexample:
  "body (login demo_lib demo_env [demo_user, demo_google_user] 1000 ''alice@example.com''
      ''Passw0rd1'') =
     LoginBody ''Login successful''
       \<lparr>view_id = 7, view_email = ''alice@example.com'', view_username = ''alice''\<rparr>
       (JWT \<lparr>userId = 7, token_type = None, iat = 1000, exp = 4600\<rparr> ''s3cret'')
       (JWT \<lparr>userId = 7, token_type = Some ''refresh'', iat = 1000, exp = 605800\<rparr> ''s3cret'') \<and>
   refresh demo_lib demo_env [demo_user, demo_google_user] 2000
     (Some (JWT \<lparr>userId = 7, token_type = Some ''refresh'', iat = 1000, exp = 605800\<rparr> ''s3cret'')) =
     \<lparr>status = 200,
      body = RefreshBody ''Token refreshed successfully''
        (JWT \<lparr>userId = 7, token_type = None, iat = 2000, exp = 5600\<rparr> ''s3cret''),
      cookie = Some (JWT \<lparr>userId = 7, token_type = None, iat = 2000, exp = 5600\<rparr> ''s3cret'')\<rparr> \<and>
   refresh demo_lib demo_env [demo_user, demo_google_user] 3000
     (Some (JWT \<lparr>userId = 7, token_type = Some ''refresh'', iat = 1000, exp = 605800\<rparr> ''s3cret'')) =
     \<lparr>status = 200,
      body = RefreshBody ''Token refreshed successfully''
        (JWT \<lparr>userId = 7, token_type = None, iat = 3000, exp = 6600\<rparr> ''s3cret''),
      cookie = Some (JWT \<lparr>userId = 7, token_type = None, iat = 3000, exp = 6600\<rparr> ''s3cret'')\<rparr>"
  by (simp add: login_def refresh_def findOne_email_def findById_def comparePassword_def
      generateAccessToken_def generateRefreshToken_def verifyRefreshToken_def jwt_sign_def
      jwt_verify_def or_else_def demo_env_def demo_lib_def demo_user_def demo_google_user_def)

text \<open>
  C1 (amended). In the C# \<open>AuthService\<close>, on a database whose user ids and token
  strings are unique: a token that \<open>StoreRefreshTokenAsync\<close> has stored for an existing
  user (as login and registration do with the token they hand out) is accepted by
  \<open>RefreshTokenAsync\<close> until it expires, with a new token pair as result; and every
  successful \<open>RefreshTokenAsync\<close> returns the new refresh token, keeps ids and tokens
  unique, and leaves a database on which every later \<open>RefreshTokenAsync\<close> of the used
  token throws \<open>UnauthorizedException(InvalidToken)\<close> and changes nothing. The
  JavaScript \<open>refresh\<close> keeps no token state: a token it has accepted once is accepted
  again at every later time before its \<open>exp\<close>, and the body carries a new access token
  only.
\<close>

theorem C1_rotation_in_AuthService_only:
  assumes ids: "distinct (map User_Id users)" and toks: "distinct (all_tokens users)"
  shows
  "(\<forall>uid t0 g users1.
      (\<exists>u\<in>set users. User_Id u = uid) \<and>
      StoreRefreshTokenAsync days t0 g users uid T = Inr users1 \<and>
      now < t0 + days * 86400 \<and> fresh \<notin> set (all_tokens users1) \<longrightarrow>
      (\<exists>dto users2. RefreshTokenAsync gen days now fresh guid users1 T = (Inr dto, users2) \<and>
        dto_RefreshToken dto = fresh)) \<and>
   (\<forall>dto users'. RefreshTokenAsync gen days now fresh guid users T = (Inr dto, users') \<longrightarrow>
      dto_RefreshToken dto = fresh \<and> distinct (map User_Id users') \<and>
      distinct (all_tokens users') \<and>
      (\<forall>now' fresh' guid'. RefreshTokenAsync gen days now' fresh' guid' users' T =
        (Inl (UnauthorizedException InvalidToken), users'))) \<and>
   (\<forall>p k now2. status (refresh L e js_users now (Some (JWT p k))) = 200 \<and> now2 < exp p \<longrightarrow>
      (\<exists>a. refresh L e js_users now2 (Some (JWT p k)) =
        \<lparr>status = 200, body = RefreshBody ''Token refreshed successfully'' a,
         cookie = Some a\<rparr>))"
proof (intro conjI allI impI)
  fix uid t0 g users1
  assume "(\<exists>u\<in>set users. User_Id u = uid) \<and>
      StoreRefreshTokenAsync days t0 g users uid T = Inr users1 \<and>
      now < t0 + days * 86400 \<and> fresh \<notin> set (all_tokens users1)"
  then have "\<exists>u\<in>set users. User_Id u = uid"
    "StoreRefreshTokenAsync days t0 g users uid T = Inr users1"
    "now < t0 + days * 86400" "fresh \<notin> set (all_tokens users1)"
    by blast+
  with ids toks show "\<exists>dto users2.
      RefreshTokenAsync gen days now fresh guid users1 T = (Inr dto, users2) \<and>
      dto_RefreshToken dto = fresh"
    by (rule store_then_refresh)
next
  fix dto users'
  assume ok: "RefreshTokenAsync gen days now fresh guid users T = (Inr dto, users')"
  note used = refresh_consumes [OF ids toks ok]
  from used show "dto_RefreshToken dto = fresh" by blast
  from used show "distinct (map User_Id users')" by blast
  from used show "distinct (all_tokens users')" by blast
  fix now' fresh' guid'
  from used show "RefreshTokenAsync gen days now' fresh' guid' users' T =
      (Inl (UnauthorizedException InvalidToken), users')"
    by blast
next
  fix p k now2
  assume "status (refresh L e js_users now (Some (JWT p k))) = 200 \<and> now2 < exp p"
  then show "\<exists>a. refresh L e js_users now2 (Some (JWT p k)) =
      \<lparr>status = 200, body = RefreshBody ''Token refreshed successfully'' a, cookie = Some a\<rparr>"
    using refresh_stateless by blast
qed

theorem C1_rotation_in_AuthService_only_witness:
  "StoreRefreshTokenAsync 7 1000 50 demo_cs_users 1 ''rt-one'' = Inr demo_cs_users1 \<and>
   RefreshTokenAsync demo_GenerateAccessToken 7 2000 ''rt-two'' 51 demo_cs_users1 ''rt-one'' =
     (Inr \<lparr>dto_AccessToken = ''access:alice@example.com'', dto_RefreshToken = ''rt-two'',
        dto_User = \<lparr>dto_Id = 1, dto_Username = ''alice'', dto_Email = ''alice@example.com'',
          dto_CreatedAt = 900\<rparr>\<rparr>,
      demo_cs_users2) \<and>
   RefreshTokenAsync demo_GenerateAccessToken 7 3000 ''rt-three'' 52 demo_cs_users2 ''rt-one'' =
     (Inl (UnauthorizedException ''Invalid or expired token''), demo_cs_users2) \<and>
   status (refresh demo_lib demo_env [demo_user, demo_google_user] 3000
     (Some (JWT \<lparr>userId = 7, token_type = Some ''refresh'', iat = 1000, exp = 605800\<rparr>
       ''s3cret''))) = 200"
proof -
  have ids: "distinct (map User_Id demo_cs_users1)"
    by (simp add: demo_cs_users1_def)
  have toks: "distinct (all_tokens demo_cs_users1)"
    by (simp add: demo_cs_users1_def all_tokens_def)
  have stored: "StoreRefreshTokenAsync 7 1000 50 demo_cs_users 1 ''rt-one'' = Inr demo_cs_users1"
    by (simp add: StoreRefreshTokenAsync_def demo_cs_users_def demo_cs_users1_def all_tokens_def)
  have first: "RefreshTokenAsync demo_GenerateAccessToken 7 2000 ''rt-two'' 51 demo_cs_users1
      ''rt-one'' =
     (Inr \<lparr>dto_AccessToken = ''access:alice@example.com'', dto_RefreshToken = ''rt-two'',
        dto_User = \<lparr>dto_Id = 1, dto_Username = ''alice'', dto_Email = ''alice@example.com'',
          dto_CreatedAt = 900\<rparr>\<rparr>,
      demo_cs_users2)"
    by (simp add: RefreshTokenAsync_def StoreRefreshTokenAsync_def token_usable_def
        demo_cs_users1_def demo_cs_users2_def all_tokens_def demo_GenerateAccessToken_def)
  have js: "status (refresh demo_lib demo_env [demo_user, demo_google_user] 2000
     (Some (JWT \<lparr>userId = 7, token_type = Some ''refresh'', iat = 1000, exp = 605800\<rparr>
       ''s3cret''))) = 200"
    by (simp add: refresh_def findById_def generateAccessToken_def verifyRefreshToken_def
        jwt_sign_def jwt_verify_def or_else_def demo_env_def demo_lib_def demo_user_def)
  have ids0: "distinct (map User_Id demo_cs_users)"
    by (simp add: demo_cs_users_def)
  have toks0: "distinct (all_tokens demo_cs_users)"
    by (simp add: demo_cs_users_def all_tokens_def)
  have known: "\<exists>u\<in>set demo_cs_users. User_Id u = 1"
    by (simp add: demo_cs_users_def)
  have unseen: "''rt-two'' \<notin> set (all_tokens demo_cs_users1)"
    by (simp add: demo_cs_users1_def all_tokens_def)
  from C1_rotation_in_AuthService_only [OF ids0 toks0,
      of 7 "''rt-one''" 2000 "''rt-two''" demo_GenerateAccessToken 51 demo_lib demo_env
        "[demo_user, demo_google_user]"] known stored unseen
  have accepted: "\<exists>dto users2.
      RefreshTokenAsync demo_GenerateAccessToken 7 2000 ''rt-two'' 51 demo_cs_users1 ''rt-one'' =
        (Inr dto, users2) \<and> dto_RefreshToken dto = ''rt-two''"
    by simp
  note C1 = C1_rotation_in_AuthService_only [OF ids toks,
      of 7 "''rt-one''" 2000 "''rt-two''" demo_GenerateAccessToken 51 demo_lib demo_env
        "[demo_user, demo_google_user]"]
  from C1 first have second:
    "RefreshTokenAsync demo_GenerateAccessToken 7 3000 ''rt-three'' 52 demo_cs_users2 ''rt-one'' =
      (Inl (UnauthorizedException InvalidToken), demo_cs_users2)"
    by blast
  from C1 js have again:
    "\<exists>a. refresh demo_lib demo_env [demo_user, demo_google_user] 3000
      (Some (JWT \<lparr>userId = 7, token_type = Some ''refresh'', iat = 1000, exp = 605800\<rparr>
        ''s3cret'')) =
      \<lparr>status = 200, body = RefreshBody ''Token refreshed successfully'' a, cookie = Some a\<rparr>"
    by simp
  then have "status (refresh demo_lib demo_env [demo_user, demo_google_user] 3000
     (Some (JWT \<lparr>userId = 7, token_type = Some ''refresh'', iat = 1000, exp = 605800\<rparr>
       ''s3cret''))) = 200"
    by auto
  with stored first second show ?thesis
    by (simp add: InvalidToken_def)
qed






text \<open>
  C4. Document ids are unique in the collection (the database's \<open>_id\<close> index). For a
  caller \<open>uid\<close>: an update or a delete aimed at a document of another owner is answered
  404 and leaves the collection as it was; no update and no delete of the caller, on
  whatever id, changes or removes a document of another owner; every entry that
  \<open>getTodos\<close> returns is the entry of a document the caller owns; a delete of an id
  that is not stored is answered 404 with the collection unchanged, and a delete of a
  document the caller owns is answered 200 and removes exactly that document.
\<close>

theorem C4_ownership:
  assumes ids: "distinct (map todo_id todos)"
  shows
  "(\<forall>t\<in>set todos. todo_id t = tid \<and> todo_userId t \<noteq> uid \<longrightarrow>
      updateTodo L e rnd now todos uid tid c = (json 404 (ErrorBody ''Todo not found''), todos) \<and>
      deleteTodo todos uid tid = (json 404 (ErrorBody ''Todo not found''), todos)) \<and>
   filter (\<lambda>t. todo_userId t \<noteq> uid) (snd (updateTodo L e rnd now todos uid tid c)) =
      filter (\<lambda>t. todo_userId t \<noteq> uid) todos \<and>
   filter (\<lambda>t. todo_userId t \<noteq> uid) (snd (deleteTodo todos uid tid)) =
      filter (\<lambda>t. todo_userId t \<noteq> uid) todos \<and>
   (\<forall>vs. body (getTodos L e todos uid) = TodosBody vs \<longrightarrow>
      (\<forall>v\<in>set vs. \<exists>t\<in>set todos. todo_id t = todo_view_id v \<and> todo_userId t = uid)) \<and>
   ((\<forall>t\<in>set todos. todo_id t \<noteq> tid) \<longrightarrow>
      deleteTodo todos uid tid = (json 404 (ErrorBody ''Todo not found''), todos)) \<and>
   (\<forall>t\<in>set todos. todo_id t = tid \<and> todo_userId t = uid \<longrightarrow>
      deleteTodo todos uid tid =
        (json 200 (MessageBody ''Todo deleted successfully''), remove1 t todos))"
proof (intro conjI ballI allI impI)
  fix t assume t: "t \<in> set todos" "todo_id t = tid \<and> todo_userId t \<noteq> uid"
  then have none: "\<forall>x\<in>set todos. \<not> (todo_id x = tid \<and> todo_userId x = uid)"
    using foreign_not_found [OF ids] by blast
  then have "findOne_todo todos tid uid = None"
    by (simp add: findOne_todo_def find_None_iff_all)
  then show "updateTodo L e rnd now todos uid tid c = (json 404 (ErrorBody ''Todo not found''), todos)"
    by (simp add: updateTodo_def)
  from none show "deleteTodo todos uid tid = (json 404 (ErrorBody ''Todo not found''), todos)"
    by (simp add: deleteTodo_def deleteOne_no_match)
next
  show "filter (\<lambda>t. todo_userId t \<noteq> uid) (snd (updateTodo L e rnd now todos uid tid c)) =
      filter (\<lambda>t. todo_userId t \<noteq> uid) todos"
    using ids by (rule updateTodo_frame)
next
  show "filter (\<lambda>t. todo_userId t \<noteq> uid) (snd (deleteTodo todos uid tid)) =
      filter (\<lambda>t. todo_userId t \<noteq> uid) todos"
    using deleteOne_frame [of uid todos tid]
    by (cases "deleteOne todos tid uid") (simp add: deleteTodo_def)
next
  fix vs v assume "body (getTodos L e todos uid) = TodosBody vs" "v \<in> set vs"
  then obtain t where "t \<in> set (find_by_user todos uid)" "v = read_todo L e t"
    by (auto simp: getTodos_def json_def getTodos_loop_map)
  then show "\<exists>t\<in>set todos. todo_id t = todo_view_id v \<and> todo_userId t = uid"
    by (auto simp: find_by_user_set read_todo_id)
next
  assume "\<forall>t\<in>set todos. todo_id t \<noteq> tid"
  then show "deleteTodo todos uid tid = (json 404 (ErrorBody ''Todo not found''), todos)"
    by (simp add: deleteTodo_def deleteOne_no_match)
next
  fix t assume "t \<in> set todos" "todo_id t = tid \<and> todo_userId t = uid"
  then show "deleteTodo todos uid tid =
      (json 200 (MessageBody ''Todo deleted successfully''), remove1 t todos)"
    using deleteOne_match [OF ids] by (simp add: deleteTodo_def)
qed


theorem C4_ownership_witness:
  "updateTodo demo_lib demo_env demo_rnd 6000 demo_todos 7 4 ''walk dog'' =
     (json 404 (ErrorBody ''Todo not found''), demo_todos) \<and>
   deleteTodo demo_todos 7 4 = (json 404 (ErrorBody ''Todo not found''), demo_todos) \<and>
   deleteTodo demo_todos 7 99 = (json 404 (ErrorBody ''Todo not found''), demo_todos) \<and>
   deleteTodo demo_todos 7 1 =
     (json 200 (MessageBody ''Todo deleted successfully''),
      [demo_todo_bad_tag, demo_todo_bad_hash, demo_todo_other])"
proof -
  have ids: "distinct (map todo_id demo_todos)"
    by (simp add: demo_todos_def demo_todo_def demo_todo_bad_tag_def demo_todo_bad_hash_def
        demo_todo_other_def)
  have other: "demo_todo_other \<in> set demo_todos" "todo_id demo_todo_other = 4"
    "todo_userId demo_todo_other \<noteq> 7"
    by (simp_all add: demo_todos_def demo_todo_other_def demo_todo_def)
  have own: "demo_todo \<in> set demo_todos" "todo_id demo_todo = 1" "todo_userId demo_todo = 7"
    by (simp_all add: demo_todos_def demo_todo_def)
  have absent: "\<forall>t\<in>set demo_todos. todo_id t \<noteq> 99"
    by (simp add: demo_todos_def demo_todo_def demo_todo_bad_tag_def demo_todo_bad_hash_def
        demo_todo_other_def)
  have removed: "remove1 demo_todo demo_todos =
      [demo_todo_bad_tag, demo_todo_bad_hash, demo_todo_other]"
    by (simp add: demo_todos_def)
  from C4_ownership [OF ids, of 4 7 demo_lib demo_env demo_rnd 6000 "''walk dog''"] other
  have 1: "updateTodo demo_lib demo_env demo_rnd 6000 demo_todos 7 4 ''walk dog'' =
      (json 404 (ErrorBody ''Todo not found''), demo_todos) \<and>
    deleteTodo demo_todos 7 4 = (json 404 (ErrorBody ''Todo not found''), demo_todos)"
    by blast
  from C4_ownership [OF ids, of 99 7 demo_lib demo_env demo_rnd 6000 "''walk dog''"] absent
  have 2: "deleteTodo demo_todos 7 99 = (json 404 (ErrorBody ''Todo not found''), demo_todos)"
    by blast
  from C4_ownership [OF ids, of 1 7 demo_lib demo_env demo_rnd 6000 "''walk dog''"] own
  have 3: "deleteTodo demo_todos 7 1 =
      (json 200 (MessageBody ''Todo deleted successfully''), remove1 demo_todo demo_todos)"
    by blast
  have listed: "body (getTodos demo_lib demo_env demo_todos 7) =
      TodosBody (map (read_todo demo_lib demo_env)
        [demo_todo_bad_hash, demo_todo_bad_tag, demo_todo])"
    by (simp add: getTodos_def json_def getTodos_loop_map find_by_user_def demo_todos_def
        demo_todo_def demo_todo_bad_tag_def demo_todo_bad_hash_def demo_todo_other_def)
  from C4_ownership [OF ids, of 1 7 demo_lib demo_env demo_rnd 6000 "''walk dog''"] listed
  have "\<forall>v\<in>set (map (read_todo demo_lib demo_env)
        [demo_todo_bad_hash, demo_todo_bad_tag, demo_todo]).
      \<exists>t\<in>set demo_todos. todo_id t = todo_view_id v \<and> todo_userId t = 7"
    by blast
  with 1 2 3 removed show ?thesis by simp
qed

text \<open>
  C5. \<open>getTodos\<close> answers 200 with exactly one entry per document of the caller, in
  the order of the query: the loop's result is the image of the documents under
  \<open>read_todo\<close>, each entry computed from its own document alone. An entry flagged
  \<open>tampered\<close> carries one of the two fixed markers as content; an entry not flagged
  carries the decrypted plaintext, whose hash is the stored one.
\<close>

theorem C5_batch_read:
  "getTodos L e todos uid = json 200 (TodosBody (map (read_todo L e) (find_by_user todos uid))) \<and>
   (\<forall>ts. getTodos_loop L e ts [] = map (read_todo L e) ts) \<and>
   (\<forall>t. tampered (read_todo L e t) \<longrightarrow>
      content (read_todo L e t) \<in> {DECRYPTION_FAILED, INTEGRITY_VIOLATION}) \<and>
   (\<forall>t. \<not> tampered (read_todo L e t) \<longrightarrow>
      decrypt L e (encryptedContent t) (iv t) (authTag t) = Inr (content (read_todo L e t)) \<and>
      verifyIntegrity L (content (read_todo L e t)) (integrityHash t))"
  by (auto simp: getTodos_def getTodos_loop_map read_todo_def split: sum.splits)

theorem C5_batch_read_witness:
  "getTodos demo_lib demo_env demo_todos 7 =
     json 200 (TodosBody
       [\<lparr>todo_view_id = 3,
         content = ''[INTEGRITY VIOLATION - Content may have been tampered with]'',
         tampered = True, error = None, createdAt = 5002, updatedAt = 5002\<rparr>,
        \<lparr>todo_view_id = 2, content = ''[DECRYPTION FAILED - Content is corrupted]'',
         tampered = True,
         error = Some ''Decryption failed: Unsupported state or unable to authenticate data'',
         createdAt = 5001, updatedAt = 5001\<rparr>,
        \<lparr>todo_view_id = 1, content = ''buy milk'', tampered = False, error = None,
         createdAt = 5000, updatedAt = 5000\<rparr>])"
proof -
  have found: "find_by_user demo_todos 7 = [demo_todo_bad_hash, demo_todo_bad_tag, demo_todo]"
    by (simp add: find_by_user_def demo_todos_def demo_todo_def demo_todo_bad_tag_def
        demo_todo_bad_hash_def demo_todo_other_def)
  note C5 = C5_batch_read [of demo_lib demo_env demo_todos 7]
  from C5 have "tampered (read_todo demo_lib demo_env demo_todo_bad_tag) \<longrightarrow>
      content (read_todo demo_lib demo_env demo_todo_bad_tag) \<in>
        {DECRYPTION_FAILED, INTEGRITY_VIOLATION}"
    by blast
  with demo_read(2) have "content (read_todo demo_lib demo_env demo_todo_bad_tag) \<in>
      {DECRYPTION_FAILED, INTEGRITY_VIOLATION}"
    by simp
  moreover from C5 have "\<not> tampered (read_todo demo_lib demo_env demo_todo) \<longrightarrow>
      decrypt demo_lib demo_env (encryptedContent demo_todo) (iv demo_todo)
        (authTag demo_todo) = Inr (content (read_todo demo_lib demo_env demo_todo))"
    by blast
  with demo_read(1) have "decrypt demo_lib demo_env (encryptedContent demo_todo)
      (iv demo_todo) (authTag demo_todo) = Inr ''buy milk''"
    by simp
  moreover from C5 found demo_read have "getTodos demo_lib demo_env demo_todos 7 =
     json 200 (TodosBody
       [\<lparr>todo_view_id = 3,
         content = ''[INTEGRITY VIOLATION - Content may have been tampered with]'',
         tampered = True, error = None, createdAt = 5002, updatedAt = 5002\<rparr>,
        \<lparr>todo_view_id = 2, content = ''[DECRYPTION FAILED - Content is corrupted]'',
         tampered = True,
         error = Some ''Decryption failed: Unsupported state or unable to authenticate data'',
         createdAt = 5001, updatedAt = 5001\<rparr>,
        \<lparr>todo_view_id = 1, content = ''buy milk'', tampered = False, error = None,
         createdAt = 5000, updatedAt = 5000\<rparr>])"
    by simp
  ultimately show ?thesis by simp
qed

text \<open>
  C6. \<open>getEncryptionKey\<close> throws when \<open>AES_KEY\<close> is unset or empty, and when it decodes
  to a number of bytes other than 32 (the message names the number). Whenever it
  throws, every \<open>encrypt\<close> and every \<open>decrypt\<close> throws with that message, and
  \<open>verifyKeyConfiguration\<close> reports \<open>configured: false\<close> with it. When \<open>AES_KEY\<close>
  decodes to 32 bytes, the key is returned and the report is configured and valid.
\<close>

theorem C6_key_configuration:
  "(falsy (AES_KEY e) \<longrightarrow>
      getEncryptionKey e = Inl (Error ''AES_KEY environment variable is not set'')) \<and>
   (\<forall>s. AES_KEY e = Some s \<and> s \<noteq> [] \<and> length (base64_decode s) \<noteq> 32 \<longrightarrow>
      getEncryptionKey e =
        Inl (Error (''AES key must be 32 bytes (256 bits), got '' @
          show_nat (length (base64_decode s)) @ '' bytes''))) \<and>
   (\<forall>s. AES_KEY e = Some s \<and> s \<noteq> [] \<and> length (base64_decode s) = 32 \<longrightarrow>
      getEncryptionKey e = Inr (base64_decode s) \<and>
      verifyKeyConfiguration e =
        \<lparr>configured = True, keyLength = Some 32, valid = Some True, report_error = None\<rparr>) \<and>
   (\<forall>err. getEncryptionKey e = Inl err \<longrightarrow>
      encrypt L e rnd P = Inl (Error (''Encryption failed: '' @ message err)) \<and>
      decrypt L e c n t = Inl (Error (''Decryption failed: '' @ message err)) \<and>
      verifyKeyConfiguration e =
        \<lparr>configured = False, keyLength = None, valid = None,
         report_error = Some (message err)\<rparr>)"
  by (cases "AES_KEY e")
    (auto simp: getEncryptionKey_def verifyKeyConfiguration_def encrypt_def decrypt_def Let_def)

theorem C6_key_configuration_witness:
  "getEncryptionKey (demo_env\<lparr>AES_KEY := None\<rparr>) =
     Inl (Error ''AES_KEY environment variable is not set'') \<and>
   getEncryptionKey (demo_env\<lparr>AES_KEY := Some ''c2hvcnQ=''\<rparr>) =
     Inl (Error ''AES key must be 32 bytes (256 bits), got 5 bytes'') \<and>
   encrypt demo_lib (demo_env\<lparr>AES_KEY := Some ''c2hvcnQ=''\<rparr>) demo_rnd ''buy milk'' =
     Inl (Error ''Encryption failed: AES key must be 32 bytes (256 bits), got 5 bytes'') \<and>
   decrypt demo_lib (demo_env\<lparr>AES_KEY := Some ''c2hvcnQ=''\<rparr>) ''TkZDYSUmOjY=''
       ''AQQHCg0QExYZHB8i'' ''AAAAAAAAAAAAAAAAAAABXw=='' =
     Inl (Error ''Decryption failed: AES key must be 32 bytes (256 bits), got 5 bytes'') \<and>
   verifyKeyConfiguration (demo_env\<lparr>AES_KEY := Some ''c2hvcnQ=''\<rparr>) =
     \<lparr>configured = False, keyLength = None, valid = None,
      report_error = Some ''AES key must be 32 bytes (256 bits), got 5 bytes''\<rparr> \<and>
   verifyKeyConfiguration demo_env =
     \<lparr>configured = True, keyLength = Some 32, valid = Some True, report_error = None\<rparr>"
proof -
  have short: "length (base64_decode ''c2hvcnQ='') = 5"
    by code_simp
  have five: "show_nat 5 = ''5''"
    by code_simp
  have good: "length (base64_decode ''AAECAwQFBgcICQoLDA0ODxAREhMUFRYXGBkaGxwdHh8='') = 32"
    by code_simp
  note unset = C6_key_configuration [of "demo_env\<lparr>AES_KEY := None\<rparr>"]
  note wrong = C6_key_configuration [of "demo_env\<lparr>AES_KEY := Some ''c2hvcnQ=''\<rparr>" demo_lib
      demo_rnd "''buy milk''" "''TkZDYSUmOjY=''" "''AQQHCg0QExYZHB8i''"
      "''AAAAAAAAAAAAAAAAAAABXw==''"]
  note right = C6_key_configuration [of demo_env]
  have 1: "getEncryptionKey (demo_env\<lparr>AES_KEY := None\<rparr>) =
      Inl (Error ''AES_KEY environment variable is not set'')"
    using unset by simp
  have 2: "getEncryptionKey (demo_env\<lparr>AES_KEY := Some ''c2hvcnQ=''\<rparr>) =
      Inl (Error ''AES key must be 32 bytes (256 bits), got 5 bytes'')"
    using wrong short five by simp
  have 3: "verifyKeyConfiguration demo_env =
      \<lparr>configured = True, keyLength = Some 32, valid = Some True, report_error = None\<rparr>"
    using right good by (simp add: demo_env_def)
  from wrong 1 2 3 show ?thesis by simp
qed

text \<open>
  C7. For every candidate password, \<open>comparePassword\<close> on an account whose password
  hash is absent (or empty) returns \<open>false\<close> without calling bcrypt, so it neither
  throws nor succeeds; and a password login for such an account is answered 401 with
  the Google sign-in message, whatever the password.
\<close>

theorem C7_federated_password_rejected:
  assumes "falsy (passwordHash u)"
  shows "comparePassword L u pw = Inr False \<and>
    (findOne_email users mail = Some u \<longrightarrow>
      login L e users now mail pw =
        json 401 (ErrorBody ''This account uses Google Sign-In. Please login with Google.''))"
  using assms
  by (auto simp: comparePassword_def login_def split: option.splits)

theorem C7_federated_password_rejected_witness:
  "comparePassword demo_lib demo_google_user ''Passw0rd1'' = Inr False \<and>
   login demo_lib demo_env [demo_user, demo_google_user] 1000 ''bob@example.com'' ''Passw0rd1'' =
     json 401 (ErrorBody ''This account uses Google Sign-In. Please login with Google.'')"
proof -
  have absent: "falsy (passwordHash demo_google_user)"
    by (simp add: demo_google_user_def)
  have found: "findOne_email [demo_user, demo_google_user] ''bob@example.com'' = Some demo_google_user"
    by (simp add: findOne_email_def demo_user_def demo_google_user_def)
  from C7_federated_password_rejected [OF absent, of demo_lib "''Passw0rd1''"
      "[demo_user, demo_google_user]" "''bob@example.com''" demo_env 1000] found
  show ?thesis by simp
qed

text \<open>
  C8 (as stated: every refresh token issued is an opaque random string, not a JWT).
  The login of \<open>alice\<close> at time 1000 is answered 200 and the refresh token of the body is
  a JWT signed under \<open>JWT_SECRET\<close>, with payload \<open>{ userId: 7, type: 'refresh' }\<close>.
\<close>

theorem C8_refresh_token_is_jwt_counterexample:
  "login demo_lib demo_env [demo_user, demo_google_user] 1000 ''alice@example.com'' ''Passw0rd1'' =
     \<lparr>status = 200,
      body = LoginBody ''Login successful''
        \<lparr>view_id = 7, view_email = ''alice@example.com'', view_username = ''alice''\<rparr>
        (JWT \<lparr>userId = 7, token_type = None, iat = 1000, exp = 4600\<rparr> ''s3cret'')
        (JWT \<lparr>userId = 7, token_type = Some ''refresh'', iat = 1000, exp = 605800\<rparr> ''s3cret''),
      cookie = Some (JWT \<lparr>userId = 7, token_type = None, iat = 1000, exp = 4600\<rparr> ''s3cret'')\<rparr> \<and>
   generateRefreshToken demo_lib demo_env 1000 7 =
     Inr (JWT \<lparr>userId = 7, token_type = Some ''refresh'', iat = 1000, exp = 605800\<rparr> ''s3cret'') \<and>
   is_jwt (JWT \<lparr>userId = 7, token_type = Some ''refresh'', iat = 1000, exp = 605800\<rparr> ''s3cret'')"
  by (simp add: login_def findOne_email_def comparePassword_def generateAccessToken_def
      generateRefreshToken_def jwt_sign_def or_else_def demo_env_def demo_lib_def demo_user_def
      demo_google_user_def)

text \<open>
  C8 (amended). Every refresh token that \<open>generateRefreshToken\<close> issues is a signed JWT:
  its payload carries the user's id, \<open>type: 'refresh'\<close>, \<open>iat\<close> and \<open>exp\<close>, and it is signed
  under \<open>JWT_REFRESH_SECRET\<close> (or \<open>JWT_SECRET\<close> when that is unset or empty). The refresh
  token of a login body is such a token for the logged-in user, and the \<open>refresh\<close>
  handler never answers with a body that carries a refresh token.
\<close>

theorem C8_refresh_token_is_signed_jwt:
  "(\<forall>tok. generateRefreshToken L e now uid = Inr tok \<longrightarrow>
      is_jwt tok \<and>
      (\<exists>k s. or_else (JWT_REFRESH_SECRET e) (JWT_SECRET e) = Some k \<and>
        tok = JWT \<lparr>userId = uid, token_type = Some ''refresh'', iat = now, exp = now + s\<rparr> k)) \<and>
   (\<forall>m v a r. body (login L e users now mail pw) = LoginBody m v a r \<longrightarrow>
      generateRefreshToken L e now (view_id v) = Inr r \<and> is_jwt r) \<and>
   (\<forall>m v a r. body (refresh L e users now t) \<noteq> LoginBody m v a r)"
proof (intro conjI allI impI)
  fix tok assume "generateRefreshToken L e now uid = Inr tok"
  then obtain k s where
    tok: "or_else (JWT_REFRESH_SECRET e) (JWT_SECRET e) = Some k"
      "tok = JWT \<lparr>userId = uid, token_type = Some ''refresh'', iat = now, exp = now + s\<rparr> k"
    unfolding generateRefreshToken_def jwt_sign_Inr by auto
  then show "is_jwt tok" by simp
  from tok show "\<exists>k s. or_else (JWT_REFRESH_SECRET e) (JWT_SECRET e) = Some k \<and>
      tok = JWT \<lparr>userId = uid, token_type = Some ''refresh'', iat = now, exp = now + s\<rparr> k"
    by blast
next
  fix m v a r assume b: "body (login L e users now mail pw) = LoginBody m v a r"
  then have issued: "generateRefreshToken L e now (view_id v) = Inr r"
    by (auto simp: login_def json_def split: option.splits sum.splits if_splits)
  then show "generateRefreshToken L e now (view_id v) = Inr r" .
  from issued show "is_jwt r"
    unfolding generateRefreshToken_def jwt_sign_Inr by auto
next
  fix m v a r show "body (refresh L e users now t) \<noteq> LoginBody m v a r"
    by (auto simp: refresh_def json_def split: option.splits sum.splits)
qed

theorem C8_refresh_token_is_signed_jwt_witness:
  "body (login demo_lib demo_env [demo_user, demo_google_user] 1000 ''alice@example.com''
      ''Passw0rd1'') =
     LoginBody ''Login successful''
       \<lparr>view_id = 7, view_email = ''alice@example.com'', view_username = ''alice''\<rparr>
       (JWT \<lparr>userId = 7, token_type = None, iat = 1000, exp = 4600\<rparr> ''s3cret'')
       (JWT \<lparr>userId = 7, token_type = Some ''refresh'', iat = 1000, exp = 605800\<rparr> ''s3cret'') \<and>
   generateRefreshToken demo_lib demo_env 1000 7 =
     Inr (JWT \<lparr>userId = 7, token_type = Some ''refresh'', iat = 1000, exp = 605800\<rparr> ''s3cret'') \<and>
   is_jwt (JWT \<lparr>userId = 7, token_type = Some ''refresh'', iat = 1000, exp = 605800\<rparr> ''s3cret'')"
proof -
  have b: "body (login demo_lib demo_env [demo_user, demo_google_user] 1000 ''alice@example.com''
      ''Passw0rd1'') =
     LoginBody ''Login successful''
       \<lparr>view_id = 7, view_email = ''alice@example.com'', view_username = ''alice''\<rparr>
       (JWT \<lparr>userId = 7, token_type = None, iat = 1000, exp = 4600\<rparr> ''s3cret'')
       (JWT \<lparr>userId = 7, token_type = Some ''refresh'', iat = 1000, exp = 605800\<rparr> ''s3cret'')"
    by (simp add: login_def findOne_email_def comparePassword_def generateAccessToken_def
        generateRefreshToken_def jwt_sign_def or_else_def demo_env_def demo_lib_def
        demo_user_def demo_google_user_def)
  from C8_refresh_token_is_signed_jwt [of demo_lib demo_env 1000 7
      "[demo_user, demo_google_user]" "''alice@example.com''" "''Passw0rd1''" None] b
  show ?thesis by auto
qed



text \<open>
  C10. \<open>verifyIntegrity\<close> holds exactly when the stored hash is, character for
  character, the hexadecimal text of the digest; that text has 64 characters, all of
  them digits or lower-case \<open>a\<close> to \<open>f\<close>. The C# \<open>ComputeSHA256\<close> computes the same
  text and \<open>VerifyIntegrity\<close> compares it with the stored hash after upper-casing
  both. When the upper-cased text differs from the text (the digest has a letter), the
  upper-cased text fails \<open>verifyIntegrity\<close>, an item stored with it is read as tampered,
  and the C# \<open>VerifyIntegrity\<close> accepts it.
\<close>

theorem C10_integrity_compare:
  "(verifyIntegrity L c h \<longleftrightarrow> h = hex_encode (word_bytes 32 (sha256 L (utf8_bytes c)))) \<and>
   length (computeSHA256 L c) = 64 \<and>
   set (computeSHA256 L c) \<subseteq> set ''0123456789abcdef'' \<and>
   ComputeSHA256 L c = computeSHA256 L c \<and>
   (VerifyIntegrity L c h \<longleftrightarrow> ToUpperInvariant h = ToUpperInvariant (computeSHA256 L c)) \<and>
   (ToUpperInvariant (computeSHA256 L c) \<noteq> computeSHA256 L c \<longrightarrow>
      \<not> verifyIntegrity L c (ToUpperInvariant (computeSHA256 L c)) \<and>
      VerifyIntegrity L c (ToUpperInvariant (computeSHA256 L c)) \<and>
      (\<forall>t. decrypt L e (encryptedContent t) (iv t) (authTag t) = Inr c \<and>
           integrityHash t = ToUpperInvariant (computeSHA256 L c) \<longrightarrow>
         content (read_todo L e t) = INTEGRITY_VIOLATION \<and> tampered (read_todo L e t)))"
proof -
  have idem: "ToUpperInvariant (ToUpperInvariant s) = ToUpperInvariant s" for s
    by (simp add: ToUpperInvariant_def upper_idem)
  show ?thesis
    using computeSHA256_shape [of L c]
    by (auto simp: verifyIntegrity_def computeSHA256_def [symmetric] ComputeSHA256_eq
        VerifyIntegrity_def idem read_todo_def)
qed

theorem C10_integrity_compare_witness:
  "computeSHA256 demo_lib ''buy milk'' =
     ''000000000000000000000000000000000000000000000000000000000000abf2'' \<and>
   \<not> verifyIntegrity demo_lib ''buy milk''
     ''000000000000000000000000000000000000000000000000000000000000ABF2'' \<and>
   VerifyIntegrity demo_lib ''buy milk''
     ''000000000000000000000000000000000000000000000000000000000000ABF2'' \<and>
   content (read_todo demo_lib demo_env (demo_todo\<lparr>integrityHash :=
     ''000000000000000000000000000000000000000000000000000000000000ABF2''\<rparr>)) =
     ''[INTEGRITY VIOLATION - Content may have been tampered with]''"
proof -
  let ?t = "demo_todo\<lparr>integrityHash :=
     ''000000000000000000000000000000000000000000000000000000000000ABF2''\<rparr>"
  have hash: "computeSHA256 demo_lib ''buy milk'' =
      ''000000000000000000000000000000000000000000000000000000000000abf2''"
    by (rule demo_hash)
  have upper: "ToUpperInvariant ''000000000000000000000000000000000000000000000000000000000000abf2'' =
      ''000000000000000000000000000000000000000000000000000000000000ABF2''"
    by code_simp
  have clean: "decrypt demo_lib demo_env (encryptedContent ?t) (iv ?t) (authTag ?t) =
      Inr ''buy milk''"
    by (simp add: demo_todo_def demo_decrypt)
  have "ToUpperInvariant (computeSHA256 demo_lib ''buy milk'') \<noteq>
      computeSHA256 demo_lib ''buy milk'' \<longrightarrow>
    \<not> verifyIntegrity demo_lib ''buy milk'' (ToUpperInvariant (computeSHA256 demo_lib ''buy milk'')) \<and>
    VerifyIntegrity demo_lib ''buy milk'' (ToUpperInvariant (computeSHA256 demo_lib ''buy milk'')) \<and>
    (\<forall>t. decrypt demo_lib demo_env (encryptedContent t) (iv t) (authTag t) = Inr ''buy milk'' \<and>
         integrityHash t = ToUpperInvariant (computeSHA256 demo_lib ''buy milk'') \<longrightarrow>
       content (read_todo demo_lib demo_env t) = INTEGRITY_VIOLATION \<and>
       tampered (read_todo demo_lib demo_env t))"
    using C10_integrity_compare [of demo_lib "''buy milk''" "[]" demo_env] by blast
  with hash upper have
    "\<not> verifyIntegrity demo_lib ''buy milk''
       ''000000000000000000000000000000000000000000000000000000000000ABF2''"
    "VerifyIntegrity demo_lib ''buy milk''
       ''000000000000000000000000000000000000000000000000000000000000ABF2''"
    "\<forall>t. decrypt demo_lib demo_env (encryptedContent t) (iv t) (authTag t) = Inr ''buy milk'' \<and>
         integrityHash t = ''000000000000000000000000000000000000000000000000000000000000ABF2'' \<longrightarrow>
       content (read_todo demo_lib demo_env t) = INTEGRITY_VIOLATION"
    by simp_all
  with hash clean show ?thesis
    by (simp add: INTEGRITY_VIOLATION_def)
qed

end
